theory Spec2Isabelle
  imports Main
begin

section \<open>Errors, Go results and collaborator payloads\<close>

text \<open>
  Errors of \<open>github.com/pkg/errors\<close>: an error handed back by a collaborator is opaque
  (\<open>External\<close>); \<open>errors.New\<close>, \<open>errors.Errorf\<close> create one from a message and
  \<open>errors.Wrap\<close>/\<open>Wrapf\<close> put a message around a cause. A Go \<open>error\<close> that may be
  \<open>nil\<close> is an \<open>error option\<close>.
\<close>

datatype error = External string | New string | Errorf string | Wrap error string

fun Error :: "error \<Rightarrow> string" where
  "Error (External m) = m"
| "Error (New m) = m"
| "Error (Errorf m) = m"
| "Error (Wrap e m) = m @ '': '' @ Error e"

text \<open>A Go call either returns or panics (here: a nil pointer dereference).\<close>

datatype 'a result = Return 'a | Panic

text \<open>
  \<open>compute.VirtualMachine\<close> as far as the reconciler reads it: the pointer fields \<open>ID\<close>
  and \<open>ProvisioningState\<close> (\<open>None\<close> is the nil pointer) and the hardware size that the
  converter reads.
\<close>

record compute_VirtualMachine =
  ID :: "string option"
  ProvisioningState :: "string option"
  HardwareProfile_VMSize :: string

text \<open>
  The \<open>interface{}\<close> value returned by \<open>azure.Service.Get\<close>: nil, a
  \<open>compute.VirtualMachine\<close>, or a value of any other dynamic type.
\<close>

datatype iface = NilValue | VirtualMachine compute_VirtualMachine | OtherValue

text \<open>\<open>v1alpha1.VM\<close>, the converted provider state.\<close>

record VM =
  vm_ID :: string
  vm_VMSize :: string

type_synonym OSDisk = string
type_synonym Image = string

record AzureMachineProviderSpec =
  VMSize :: string
  SSHPublicKey :: string
  OSDisk :: OSDisk
  Image :: Image

record AzureMachineProviderStatus =
  VMID :: "string option"
  VMState :: "string option"

record AzureClusterProviderSpec =
  AdminKubeconfig :: string

record ObjectReference =
  Kind :: string
  APIVersion :: string
  ref_Name :: string

record Machine =
  Name :: string
  Labels :: "string \<rightharpoonup> string"
  Annotations :: "(string \<rightharpoonup> string) option"
  Spec_ProviderID :: "string option"
  Status_NodeRef :: "ObjectReference option"

record MachineScope =
  Machine :: Machine
  Cluster_Name :: string
  MachineConfig :: AzureMachineProviderSpec
  MachineStatus :: AzureMachineProviderStatus
  ClusterConfig :: "AzureClusterProviderSpec option"

record Node =
  node_Kind :: string
  node_APIVersion :: string
  node_Name :: string
  node_ProviderID :: string

record NodeList =
  Items :: "Node list"
  Continue :: string

subsection \<open>Service specs\<close>

record networkinterfaces_Spec =
  nic_Name :: string
  VnetName :: string
  SubnetName :: string
  PublicLoadBalancerName :: string
  InternalLoadBalancerName :: string
  NatRule :: "int option"

record virtualmachines_Spec =
  vm_Name :: string
  NICName :: string
  SSHKeyData :: string
  Size :: string
  spec_OSDisk :: OSDisk
  spec_Image :: Image

record virtualmachineextensions_Spec =
  ext_Name :: string
  VMName :: string
  ScriptData :: string

section \<open>The collaborators\<close>

text \<open>
  Everything the reconciler calls that lives outside \<open>reconciler.go\<close> is a parameter:
  the responses of the machine registry, of the three Azure services, of the token
  service and of the node inventory, and the pure helpers (name generators, converter,
  base64, startup script, client construction, the control-plane test of cluster-api).
  A pair \<open>(value, error)\<close> of Go is kept as a pair where the code looks at both
  components, and is a sum (\<open>Inl\<close> the error) where it only looks at the error first.
\<close>

record env =
  MachineClient_List :: "error + Machine list"
  IsControlPlaneMachine :: "Machine \<Rightarrow> bool"
  virtualMachinesSvc_Get :: "virtualmachines_Spec \<Rightarrow> iface \<times> error option"
  virtualMachinesSvc_CreateOrUpdate :: "virtualmachines_Spec \<Rightarrow> error option"
  virtualMachinesSvc_Delete :: "virtualmachines_Spec \<Rightarrow> error option"
  networkInterfacesSvc_CreateOrUpdate :: "networkinterfaces_Spec \<Rightarrow> error option"
  networkInterfacesSvc_Delete :: "networkinterfaces_Spec \<Rightarrow> error option"
  virtualMachinesExtSvc_Get :: "virtualmachineextensions_Spec \<Rightarrow> iface \<times> error option"
  virtualMachinesExtSvc_CreateOrUpdate :: "virtualmachineextensions_Spec \<Rightarrow> error option"
  CreateNewBootstrapToken :: "string \<Rightarrow> int \<Rightarrow> error + string"
  GetVMStartupScript :: "MachineScope \<Rightarrow> string \<Rightarrow> error + string"
  DecodeString :: "string \<Rightarrow> string \<times> error option"
  EncodeToString :: "string \<Rightarrow> string"
  GenerateVnetName :: "string \<Rightarrow> string"
  GenerateNodeSubnetName :: "string \<Rightarrow> string"
  GenerateControlPlaneSubnetName :: "string \<Rightarrow> string"
  GeneratePublicLBName :: "string \<Rightarrow> string"
  GenerateInternalLBName :: "string \<Rightarrow> string"
  SDKToVM :: "compute_VirtualMachine \<Rightarrow> VM"
  NewClientConfigFromBytes :: "string \<Rightarrow> error option"
  ClientConfig :: "string \<Rightarrow> error option"
  NewForConfig :: "string \<Rightarrow> error option"
  Nodes_List :: "string \<Rightarrow> error + NodeList"

text \<open>
  The external calls an operation issues, in the order it issues them. The token
  request carries the kubeconfig and the TTL, the node listing its continuation token.
\<close>

datatype call =
    MachineList
  | VMGet virtualmachines_Spec
  | VMCreateOrUpdate virtualmachines_Spec
  | VMDelete virtualmachines_Spec
  | NICCreateOrUpdate networkinterfaces_Spec
  | NICDelete networkinterfaces_Spec
  | ExtGet virtualmachineextensions_Spec
  | ExtCreateOrUpdate virtualmachineextensions_Spec
  | TokenRequest string int
  | NodesList string

fun is_mutation :: "call \<Rightarrow> bool" where
  "is_mutation (VMCreateOrUpdate _) = True"
| "is_mutation (VMDelete _) = True"
| "is_mutation (NICCreateOrUpdate _) = True"
| "is_mutation (NICDelete _) = True"
| "is_mutation (ExtCreateOrUpdate _) = True"
| "is_mutation _ = False"

fun is_token_request :: "call \<Rightarrow> bool" where
  "is_token_request (TokenRequest _ _) = True"
| "is_token_request _ = False"

fun touches_extension :: "call \<Rightarrow> bool" where
  "touches_extension (ExtGet _) = True"
| "touches_extension (ExtCreateOrUpdate _) = True"
| "touches_extension _ = False"

fun touches_provider :: "call \<Rightarrow> bool" where
  "touches_provider MachineList = False"
| "touches_provider (TokenRequest _ _) = False"
| "touches_provider (NodesList _) = False"
| "touches_provider _ = True"

section \<open>Constants\<close>

text \<open>\<open>time.Duration\<close> counts nanoseconds.\<close>

definition Second :: int where
  "Second = 1000000000"

definition Minute :: int where
  "Minute = 60 * Second"

definition DefaultBootstrapTokenTTL :: int where
  "DefaultBootstrapTokenTTL = 10 * Minute"

text \<open>
  Modelled from the spec: the role constants \<open>v1alpha1.Node\<close> and
  \<open>v1alpha1.ControlPlane\<close> and the provisioning states \<open>v1alpha1.VMStateSucceeded\<close>
  and \<open>v1alpha1.VMStateUpdating\<close> are declared in the API package, which is not part
  of the source; the spec names the two roles \<open>Node\<close> and \<open>ControlPlane\<close> and the two
  states \<open>Succeeded\<close> and \<open>Updating\<close>. Only their being different matters below.
\<close>

definition role_Node :: string where
  "role_Node = ''Node''"

definition role_ControlPlane :: string where
  "role_ControlPlane = ''ControlPlane''"

definition VMStateSucceeded :: string where
  "VMStateSucceeded = ''Succeeded''"

definition VMStateUpdating :: string where
  "VMStateUpdating = ''Updating''"

text \<open>
  Modelled from the spec: \<open>MachineScope.Name()\<close> is declared in the actuators package,
  which is not part of the source; the spec names the VM after the machine.
\<close>

definition scope_Name :: "MachineScope \<Rightarrow> string" where
  "scope_Name s = Name (Machine s)"

text \<open>Indexing a Go map (also a nil one) with a missing key gives the zero value.\<close>

definition label :: "Machine \<Rightarrow> string \<Rightarrow> string" where
  "label m k = (case Labels m k of None \<Rightarrow> [] | Some v \<Rightarrow> v)"

text \<open>A spec literal that sets only some fields leaves the others at their zero value.\<close>

definition vmSpec_named :: "string \<Rightarrow> virtualmachines_Spec" where
  "vmSpec_named n =
     \<lparr>vm_Name = n, NICName = [], SSHKeyData = [], Size = [], spec_OSDisk = [], spec_Image = []\<rparr>"

definition startupScript_of :: "string \<Rightarrow> virtualmachineextensions_Spec" where
  "startupScript_of n = \<lparr>ext_Name = ''startupScript'', VMName = n, ScriptData = []\<rparr>"

definition nicSpec_of :: "env \<Rightarrow> MachineScope \<Rightarrow> networkinterfaces_Spec" where
  "nicSpec_of env s =
     \<lparr>nic_Name = Name (Machine s) @ ''-nic'',
      VnetName = GenerateVnetName env (Cluster_Name s),
      SubnetName = [], PublicLoadBalancerName = [], InternalLoadBalancerName = [],
      NatRule = None\<rparr>"

text \<open>\<open>strings.Contains\<close>: \<open>substr\<close> occurs in \<open>s\<close> as a contiguous block.\<close>

fun HasPrefix :: "string \<Rightarrow> string \<Rightarrow> bool" where
  "HasPrefix s [] = True"
| "HasPrefix [] (p # ps) = False"
| "HasPrefix (c # cs) (p # ps) = (c = p \<and> HasPrefix cs ps)"

fun Contains :: "string \<Rightarrow> string \<Rightarrow> bool" where
  "Contains [] substr = (substr = [])"
| "Contains (c # cs) substr = (HasPrefix (c # cs) substr \<or> Contains cs substr)"

section \<open>The reconciler\<close>

subsection \<open>isMachineOutdated\<close>

definition isMachineOutdated :: "AzureMachineProviderSpec \<Rightarrow> VM \<Rightarrow> bool" where
  "isMachineOutdated machineSpec vm =
     (if VMSize machineSpec \<noteq> vm_VMSize vm then True else False)"

subsection \<open>Update\<close>

definition Update :: "env \<Rightarrow> MachineScope \<Rightarrow> error option \<times> call list" where
  "Update env s =
     (let vmSpec = vmSpec_named (Name (Machine s))
      in case virtualMachinesSvc_Get env vmSpec of
           (vmInterface, Some err) \<Rightarrow>
             (Some (Errorf (''failed to get vm: '' @ Error err)), [VMGet vmSpec])
         | (vmInterface, None) \<Rightarrow>
             (case vmInterface of
                VirtualMachine vm \<Rightarrow>
                  if isMachineOutdated (MachineConfig s) (SDKToVM env vm)
                  then (Some (Errorf ''found attempt to change immutable state''), [VMGet vmSpec])
                  else (None, [VMGet vmSpec])
              | _ \<Rightarrow> (Some (New ''returned incorrect vm interface''), [VMGet vmSpec])))"

subsection \<open>Delete\<close>

definition Delete :: "env \<Rightarrow> MachineScope \<Rightarrow> error option \<times> call list" where
  "Delete env s =
     (let vmSpec = vmSpec_named (Name (Machine s))
      in case virtualMachinesSvc_Delete env vmSpec of
           Some err \<Rightarrow> (Some (Wrap err ''failed to delete machine''), [VMDelete vmSpec])
         | None \<Rightarrow>
             (let networkInterfaceSpec = nicSpec_of env s
              in case networkInterfacesSvc_Delete env networkInterfaceSpec of
                   Some err \<Rightarrow>
                     (Some (Wrap err ''Unable to delete network interface''),
                      [VMDelete vmSpec, NICDelete networkInterfaceSpec])
                 | None \<Rightarrow> (None, [VMDelete vmSpec, NICDelete networkInterfaceSpec])))"

subsection \<open>isNodeJoin\<close>

text \<open>
  The loop over \<open>clusterMachines.Items\<close>: machines that are not control-plane machines
  are skipped; the first control-plane machine decides, so the loop body returns in
  every branch.
\<close>

fun isNodeJoin_loop ::
  "env \<Rightarrow> MachineScope \<Rightarrow> Machine list \<Rightarrow> (bool \<times> error option) \<times> call list" where
  "isNodeJoin_loop env s [] = ((False, None), [])"
| "isNodeJoin_loop env s (cm # cms) =
     (if \<not> IsControlPlaneMachine env cm then isNodeJoin_loop env s cms
      else
        (case virtualMachinesSvc_Get env (vmSpec_named (Name cm)) of
           (vmInterface, err) \<Rightarrow>
             if err \<noteq> None \<and> vmInterface = NilValue
             then ((False, None), [VMGet (vmSpec_named (Name cm))])
             else
               (case err of
                  Some e \<Rightarrow>
                    ((False, Some (Wrap e (''failed to verify existence of machine '' @ Name cm))),
                     [VMGet (vmSpec_named (Name cm))])
                | None \<Rightarrow>
                    (let vmExtSpec = startupScript_of (Name cm)
                     in case virtualMachinesExtSvc_Get env vmExtSpec of
                          (vmExt, err) \<Rightarrow>
                            if err \<noteq> None \<and> vmExt = NilValue
                            then ((False, None),
                                  [VMGet (vmSpec_named (Name cm)), ExtGet vmExtSpec])
                            else ((True, None),
                                  [VMGet (vmSpec_named (Name cm)), ExtGet vmExtSpec])))))"

definition unknown_set_label :: "string \<Rightarrow> string \<Rightarrow> error" where
  "unknown_set_label set' name =
     Errorf (''Unknown value '' @ set' @ '' for label `set` on machine '' @ name
             @ '', skipping machine creation'')"

definition isNodeJoin :: "env \<Rightarrow> MachineScope \<Rightarrow> (bool \<times> error option) \<times> call list" where
  "isNodeJoin env s =
     (case MachineClient_List env of
        Inl err \<Rightarrow>
          ((False, Some (Wrap err ''failed to retrieve machines in cluster'')), [MachineList])
      | Inr clusterMachines \<Rightarrow>
          (let set' = label (Machine s) ''set''
           in if set' = role_Node then ((True, None), [MachineList])
              else if set' = role_ControlPlane then
                (case isNodeJoin_loop env s clusterMachines of
                   (r, calls) \<Rightarrow> (r, MachineList # calls))
              else ((False, Some (unknown_set_label set' (scope_Name s))), [MachineList])))"

subsection \<open>checkControlPlaneMachines\<close>

definition checkControlPlaneMachines ::
  "env \<Rightarrow> MachineScope \<Rightarrow> (string \<times> error option) \<times> call list" where
  "checkControlPlaneMachines env s =
     (case isNodeJoin env s of
        ((isJoin, Some err), calls) \<Rightarrow>
          (([], Some (Wrap err ''failed to determine whether machine should join cluster'')),
           calls)
      | ((isJoin, None), calls) \<Rightarrow>
          if isJoin then
            (case ClusterConfig s of
               None \<Rightarrow>
                 (([], Some (Errorf ''failed to retrieve corev1 client for empty kubeconfig'')),
                  calls)
             | Some cc \<Rightarrow>
                 (case CreateNewBootstrapToken env (AdminKubeconfig cc) DefaultBootstrapTokenTTL of
                    Inl err \<Rightarrow>
                      (([], Some (Wrap err ''failed to create new bootstrap token'')),
                       calls @ [TokenRequest (AdminKubeconfig cc) DefaultBootstrapTokenTTL])
                  | Inr bootstrapToken \<Rightarrow>
                      ((bootstrapToken, None),
                       calls @ [TokenRequest (AdminKubeconfig cc) DefaultBootstrapTokenTTL])))
          else (([], None), calls))"

subsection \<open>Create\<close>

text \<open>
  The switch on the label \<open>set\<close> completes the network-interface spec, or leaves the
  function in its default case.
\<close>

definition networkInterfaceSpec_for ::
  "env \<Rightarrow> MachineScope \<Rightarrow> networkinterfaces_Spec option" where
  "networkInterfaceSpec_for env s =
     (let networkInterfaceSpec = nicSpec_of env s; set' = label (Machine s) ''set''
      in if set' = role_Node then
           Some (networkInterfaceSpec
                   \<lparr>SubnetName := GenerateNodeSubnetName env (Cluster_Name s)\<rparr>)
         else if set' = role_ControlPlane then
           Some (networkInterfaceSpec
                   \<lparr>SubnetName := GenerateControlPlaneSubnetName env (Cluster_Name s),
                    PublicLoadBalancerName := GeneratePublicLBName env (Cluster_Name s),
                    InternalLoadBalancerName := GenerateInternalLBName env (Cluster_Name s),
                    NatRule := Some 0\<rparr>)
         else None)"

text \<open>
  The VM spec: the decoded SSH key is used whether or not decoding failed (the error of
  \<open>DecodeString\<close> is wrapped and dropped). The extension spec carries the encoded
  startup script.
\<close>

definition vmSpec_for ::
  "env \<Rightarrow> MachineScope \<Rightarrow> networkinterfaces_Spec \<Rightarrow> virtualmachines_Spec" where
  "vmSpec_for env s networkInterfaceSpec =
     \<lparr>vm_Name = Name (Machine s),
      NICName = nic_Name networkInterfaceSpec,
      SSHKeyData = fst (DecodeString env (SSHPublicKey (MachineConfig s))),
      Size = VMSize (MachineConfig s),
      spec_OSDisk = OSDisk (MachineConfig s),
      spec_Image = Image (MachineConfig s)\<rparr>"

definition vmExtSpec_for ::
  "env \<Rightarrow> MachineScope \<Rightarrow> string \<Rightarrow> virtualmachineextensions_Spec" where
  "vmExtSpec_for env s scriptData =
     \<lparr>ext_Name = ''startupScript'', VMName = Name (Machine s),
      ScriptData = EncodeToString env scriptData\<rparr>"

definition mark_provisioned :: "MachineScope \<Rightarrow> MachineScope" where
  "mark_provisioned s =
     (let annotations = (case Annotations (Machine s) of None \<Rightarrow> Map.empty | Some a \<Rightarrow> a)
      in s\<lparr>Machine := (Machine s)
             \<lparr>Annotations := Some (annotations(''cluster-api-provider-azure'' \<mapsto> ''true''))\<rparr>\<rparr>)"

definition Create :: "env \<Rightarrow> MachineScope \<Rightarrow> error option \<times> MachineScope \<times> call list" where
  "Create env s =
     (case checkControlPlaneMachines env s of
        ((bootstrapToken, Some err), c0) \<Rightarrow>
          (Some (Wrap err ''failed to check control plane machines in cluster''), s, c0)
      | ((bootstrapToken, None), c0) \<Rightarrow>
          (case networkInterfaceSpec_for env s of
             None \<Rightarrow>
               (Some (unknown_set_label (label (Machine s) ''set'') (Name (Machine s))), s, c0)
           | Some networkInterfaceSpec \<Rightarrow>
               (case networkInterfacesSvc_CreateOrUpdate env networkInterfaceSpec of
                  Some err \<Rightarrow>
                    (Some (Wrap err ''Unable to create VM network interface''), s,
                     c0 @ [NICCreateOrUpdate networkInterfaceSpec])
                | None \<Rightarrow>
                    (let vmSpec = vmSpec_for env s networkInterfaceSpec
                     in case virtualMachinesSvc_CreateOrUpdate env vmSpec of
                          Some err \<Rightarrow>
                            (Some (Wrap err ''failed to create or get machine''), s,
                             c0 @ [NICCreateOrUpdate networkInterfaceSpec,
                                   VMCreateOrUpdate vmSpec])
                        | None \<Rightarrow>
                            (case GetVMStartupScript env s bootstrapToken of
                               Inl err \<Rightarrow>
                                 (Some (Wrap err ''failed to get vm startup script''), s,
                                  c0 @ [NICCreateOrUpdate networkInterfaceSpec,
                                        VMCreateOrUpdate vmSpec])
                             | Inr scriptData \<Rightarrow>
                                 (let vmExtSpec = vmExtSpec_for env s scriptData;
                                      err = virtualMachinesExtSvc_CreateOrUpdate env vmExtSpec
                                  in (None, mark_provisioned s,
                                      c0 @ [NICCreateOrUpdate networkInterfaceSpec,
                                            VMCreateOrUpdate vmSpec,
                                            ExtCreateOrUpdate vmExtSpec])))))))"

subsection \<open>isVMExists\<close>

definition isVMExists ::
  "env \<Rightarrow> MachineScope \<Rightarrow> (bool \<times> error option) result \<times> MachineScope \<times> call list" where
  "isVMExists env s =
     (let vmSpec = vmSpec_named (scope_Name s)
      in case virtualMachinesSvc_Get env vmSpec of
           (vmInterface, err) \<Rightarrow>
             if err \<noteq> None \<and> vmInterface = NilValue
             then (Return (False, None), s, [VMGet vmSpec])
             else
               (case err of
                  Some e \<Rightarrow> (Return (False, Some (Wrap e ''Failed to get vm'')), s, [VMGet vmSpec])
                | None \<Rightarrow>
                    (case vmInterface of
                       VirtualMachine vm \<Rightarrow>
                         (let vmExtSpec = startupScript_of (scope_Name s)
                          in case virtualMachinesExtSvc_Get env vmExtSpec of
                               (vmExt, err) \<Rightarrow>
                                 if err \<noteq> None \<and> vmExt = NilValue
                                 then (Return (False, None), s, [VMGet vmSpec, ExtGet vmExtSpec])
                                 else
                                   (case err of
                                      Some e \<Rightarrow>
                                        (Return (False, Some (Wrap e ''failed to get vm extension'')),
                                         s, [VMGet vmSpec, ExtGet vmExtSpec])
                                    | None \<Rightarrow>
                                        (case ProvisioningState vm of
                                           None \<Rightarrow> (Panic, s, [VMGet vmSpec, ExtGet vmExtSpec])
                                         | Some vmState \<Rightarrow>
                                             (Return (True, None),
                                              s\<lparr>MachineStatus := (MachineStatus s)
                                                   \<lparr>VMID := ID vm, VMState := Some vmState\<rparr>\<rparr>,
                                              [VMGet vmSpec, ExtGet vmExtSpec]))))
                     | _ \<Rightarrow>
                         (Return (False, Some (New ''returned incorrect vm interface'')), s,
                          [VMGet vmSpec]))))"

subsection \<open>getNodeReference\<close>

definition coreV1Client :: "env \<Rightarrow> string \<Rightarrow> error option" where
  "coreV1Client env kubeconfig =
     (case NewClientConfigFromBytes env kubeconfig of
        Some err \<Rightarrow> Some (Wrap err ''failed to get client config for cluster'')
      | None \<Rightarrow>
          (case ClientConfig env kubeconfig of
             Some err \<Rightarrow> Some (Wrap err ''failed to get client config for cluster'')
           | None \<Rightarrow> NewForConfig env kubeconfig))"

definition node_matches :: "string \<Rightarrow> Node \<Rightarrow> bool" where
  "node_matches instanceID node = Contains (node_ProviderID node) instanceID"

definition reference_of :: "Node \<Rightarrow> ObjectReference" where
  "reference_of node =
     \<lparr>Kind = node_Kind node, APIVersion = node_APIVersion node, ref_Name = node_Name node\<rparr>"

text \<open>
  The unbounded \<open>for\<close> loop over the pages: \<open>continue\<close> is \<open>listOpt.Continue\<close>, \<open>calls\<close>
  the listings issued so far. The loop need not end: \<open>None\<close> is not returning.
\<close>

partial_function (option) getNodeReference_loop ::
  "env \<Rightarrow> MachineScope \<Rightarrow> string \<Rightarrow> string \<Rightarrow> call list
     \<Rightarrow> ((error + ObjectReference) \<times> call list) option" where
  "getNodeReference_loop env s instanceID continue calls =
     (case Nodes_List env continue of
        Inl err \<Rightarrow>
          Some (Inl (Wrap err ''failed to query cluster nodes''), calls @ [NodesList continue])
      | Inr nodeList \<Rightarrow>
          (case find (node_matches instanceID) (Items nodeList) of
             Some node \<Rightarrow> Some (Inr (reference_of node), calls @ [NodesList continue])
           | None \<Rightarrow>
               if Continue nodeList = []
               then Some (Inl (Errorf (''no node found for machine '' @ scope_Name s)),
                          calls @ [NodesList continue])
               else getNodeReference_loop env s instanceID (Continue nodeList)
                      (calls @ [NodesList continue])))"

declare getNodeReference_loop.simps [code]

definition getNodeReference ::
  "env \<Rightarrow> MachineScope \<Rightarrow> ((error + ObjectReference) \<times> call list) option" where
  "getNodeReference env s =
     (case VMID (MachineStatus s) of
        None \<Rightarrow>
          Some (Inl (Errorf (''instance id is empty for machine '' @ Name (Machine s))), [])
      | Some instanceID \<Rightarrow>
          (case ClusterConfig s of
             None \<Rightarrow>
               Some (Inl (Errorf (''failed to retrieve corev1 client for empty kubeconfig ''
                                  @ Cluster_Name s)), [])
           | Some cc \<Rightarrow>
               (case coreV1Client env (AdminKubeconfig cc) of
                  Some err \<Rightarrow>
                    Some (Inl (Wrap err (''failed to retrieve corev1 client for cluster ''
                                         @ Cluster_Name s)), [])
                | None \<Rightarrow> getNodeReference_loop env s instanceID [] [])))"

subsection \<open>Exists\<close>

definition backfill_ProviderID :: "MachineScope \<Rightarrow> string \<Rightarrow> MachineScope" where
  "backfill_ProviderID s vmid =
     (if Spec_ProviderID (Machine s) = None \<or> Spec_ProviderID (Machine s) = Some []
      then s\<lparr>Machine := (Machine s)\<lparr>Spec_ProviderID := Some (''azure:////'' @ vmid)\<rparr>\<rparr>
      else s)"

definition Exists ::
  "env \<Rightarrow> MachineScope
     \<Rightarrow> ((bool \<times> error option) result \<times> MachineScope \<times> call list) option" where
  "Exists env s =
     (case isVMExists env s of
        (Panic, s1, c1) \<Rightarrow> Some (Panic, s1, c1)
      | (Return (exists, Some err), s1, c1) \<Rightarrow> Some (Return (False, Some err), s1, c1)
      | (Return (exists, None), s1, c1) \<Rightarrow>
          if \<not> exists then Some (Return (False, None), s1, c1)
          else
            (case VMState (MachineStatus s1) of
               None \<Rightarrow> Some (Panic, s1, c1)
             | Some vmState \<Rightarrow>
                 if vmState = VMStateSucceeded \<or> vmState = VMStateUpdating then
                   (case VMID (MachineStatus s1) of
                      None \<Rightarrow> Some (Panic, s1, c1)
                    | Some vmid \<Rightarrow>
                        (let s2 = backfill_ProviderID s1 vmid
                         in if Status_NodeRef (Machine s2) = None then
                              (case getNodeReference env s2 of
                                 None \<Rightarrow> None
                               | Some (Inl err, c2) \<Rightarrow> Some (Return (True, None), s2, c1 @ c2)
                               | Some (Inr nodeRef, c2) \<Rightarrow>
                                   Some (Return (True, None),
                                         s2\<lparr>Machine := (Machine s2)
                                              \<lparr>Status_NodeRef := Some nodeRef\<rparr>\<rparr>,
                                         c1 @ c2))
                            else Some (Return (True, None), s2, c1)))
                 else Some (Return (False, None), s1, c1)))"

section \<open>Notions used by the properties\<close>

fun is_vm_delete :: "call \<Rightarrow> bool" where
  "is_vm_delete (VMDelete _) = True"
| "is_vm_delete _ = False"

fun is_nic_delete :: "call \<Rightarrow> bool" where
  "is_nic_delete (NICDelete _) = True"
| "is_nic_delete _ = False"

text \<open>
  \<open>comes_before P Q calls\<close>: reading the calls in order, a call satisfying \<open>P\<close> is
  met before any call satisfying \<open>Q\<close> (or there is no \<open>Q\<close> call at all).
\<close>

fun comes_before :: "(call \<Rightarrow> bool) \<Rightarrow> (call \<Rightarrow> bool) \<Rightarrow> call list \<Rightarrow> bool" where
  "comes_before P Q [] = True"
| "comes_before P Q (c # cs) = (if Q c then False else if P c then True else comes_before P Q cs)"

text \<open>
  The control-plane machines of a registry listing other than the machine being
  reconciled, and all of them.
\<close>

definition other_control_plane_machines :: "env \<Rightarrow> MachineScope \<Rightarrow> Machine list \<Rightarrow> Machine list" where
  "other_control_plane_machines env s ms =
     filter (\<lambda>cm. IsControlPlaneMachine env cm \<and> Name cm \<noteq> Name (Machine s)) ms"

definition control_plane_machines :: "env \<Rightarrow> Machine list \<Rightarrow> Machine list" where
  "control_plane_machines env ms = filter (IsControlPlaneMachine env) ms"

text \<open>The error of the join decision for a machine whose label names no known role.\<close>

definition join_error :: "env \<Rightarrow> MachineScope \<Rightarrow> error" where
  "join_error env s =
     (case MachineClient_List env of
        Inl err \<Rightarrow> Wrap err ''failed to retrieve machines in cluster''
      | Inr clusterMachines \<Rightarrow> unknown_set_label (label (Machine s) ''set'') (scope_Name s))"

text \<open>
  \<open>listed env instanceID continue pages\<close>: \<open>pages\<close> are the pages the loop lists,
  starting with the token \<open>continue\<close>: each is the answer to the token of the one
  before it; every page but the last has no matching node and a non-empty token; the
  last one has a matching node or the empty token. Pages after a match are not listed
  and nothing is asked of them.
\<close>

fun listed :: "env \<Rightarrow> string \<Rightarrow> string \<Rightarrow> NodeList list \<Rightarrow> bool" where
  "listed env instanceID continue [] = False"
| "listed env instanceID continue (p # ps) =
     (Nodes_List env continue = Inr p \<and>
      (if ps = []
       then find (node_matches instanceID) (Items p) \<noteq> None \<or> Continue p = []
       else find (node_matches instanceID) (Items p) = None \<and> Continue p \<noteq> [] \<and>
            listed env instanceID (Continue p) ps))"

text \<open>The listing calls for these pages, token by token.\<close>

fun page_listings :: "string \<Rightarrow> NodeList list \<Rightarrow> call list" where
  "page_listings continue [] = []"
| "page_listings continue (p # ps) = NodesList continue # page_listings (Continue p) ps"

text \<open>
  \<open>paging_ends env n continue\<close>: within \<open>n\<close> listings from \<open>continue\<close> the inventory
  answers with an error or with a page that carries the empty token.
\<close>

fun paging_ends :: "env \<Rightarrow> nat \<Rightarrow> string \<Rightarrow> bool" where
  "paging_ends env 0 continue = False"
| "paging_ends env (Suc n) continue =
     (case Nodes_List env continue of
        Inl err \<Rightarrow> True
      | Inr nodeList \<Rightarrow> Continue nodeList = [] \<or> paging_ends env n (Continue nodeList))"

definition status_after :: "env \<Rightarrow> MachineScope \<Rightarrow> AzureMachineProviderStatus option" where
  "status_after env s = map_option (\<lambda>(r, s', calls). MachineStatus s') (Exists env s)"

definition outcome :: "env \<Rightarrow> MachineScope \<Rightarrow> (bool \<times> error option) result option" where
  "outcome env s = map_option fst (Exists env s)"

section \<open>A concrete cluster\<close>

text \<open>
  Cluster \<open>demo\<close> with machines named after their role, collaborators that succeed, and
  tables for what the VM and extension services and the node inventory answer.
\<close>

definition machine_of :: "string \<Rightarrow> string \<Rightarrow> Machine" where
  "machine_of name role =
     \<lparr>Name = name, Labels = [''set'' \<mapsto> role], Annotations = None,
      Spec_ProviderID = None, Status_NodeRef = None\<rparr>"

definition scope_of :: "Machine \<Rightarrow> MachineScope" where
  "scope_of m =
     \<lparr>Machine = m, Cluster_Name = ''demo'',
      MachineConfig = \<lparr>VMSize = ''Standard_B2ms'', SSHPublicKey = ''c3NoLXJzYQ=='',
                       OSDisk = ''Linux'', Image = ''UbuntuServer''\<rparr>,
      MachineStatus = \<lparr>VMID = None, VMState = None\<rparr>,
      ClusterConfig = Some \<lparr>AdminKubeconfig = ''admin.conf''\<rparr>\<rparr>"

definition not_found :: "iface \<times> error option" where
  "not_found = (NilValue, Some (External ''not found''))"

definition vm_in :: "string \<Rightarrow> string \<Rightarrow> iface \<times> error option" where
  "vm_in vmid state =
     (VirtualMachine \<lparr>ID = Some vmid, ProvisioningState = Some state,
                      HardwareProfile_VMSize = ''Standard_B2ms''\<rparr>, None)"

definition demo_env ::
  "Machine list \<Rightarrow> (string \<Rightarrow> iface \<times> error option) \<Rightarrow> (string \<Rightarrow> iface \<times> error option)
     \<Rightarrow> (string \<Rightarrow> error + NodeList) \<Rightarrow> env" where
  "demo_env ms vms exts pages =
     \<lparr>MachineClient_List = Inr ms,
      IsControlPlaneMachine = (\<lambda>m. label m ''set'' = role_ControlPlane),
      virtualMachinesSvc_Get = (\<lambda>spec. vms (vm_Name spec)),
      virtualMachinesSvc_CreateOrUpdate = (\<lambda>spec. None),
      virtualMachinesSvc_Delete = (\<lambda>spec. None),
      networkInterfacesSvc_CreateOrUpdate = (\<lambda>spec. None),
      networkInterfacesSvc_Delete = (\<lambda>spec. None),
      virtualMachinesExtSvc_Get = (\<lambda>spec. exts (VMName spec)),
      virtualMachinesExtSvc_CreateOrUpdate = (\<lambda>spec. None),
      CreateNewBootstrapToken = (\<lambda>kubeconfig ttl. Inr ''abcdef.0123456789abcdef''),
      GetVMStartupScript = (\<lambda>s token. Inr (''kubeadm '' @ token)),
      DecodeString = (\<lambda>x. (x, None)),
      EncodeToString = (\<lambda>x. x),
      GenerateVnetName = (\<lambda>c. c @ ''-vnet''),
      GenerateNodeSubnetName = (\<lambda>c. c @ ''-node-subnet''),
      GenerateControlPlaneSubnetName = (\<lambda>c. c @ ''-controlplane-subnet''),
      GeneratePublicLBName = (\<lambda>c. c @ ''-public-lb''),
      GenerateInternalLBName = (\<lambda>c. c @ ''-internal-lb''),
      SDKToVM = (\<lambda>v. \<lparr>vm_ID = (case ID v of None \<Rightarrow> [] | Some i \<Rightarrow> i),
                       vm_VMSize = HardwareProfile_VMSize v\<rparr>),
      NewClientConfigFromBytes = (\<lambda>kubeconfig. None),
      ClientConfig = (\<lambda>kubeconfig. None),
      NewForConfig = (\<lambda>kubeconfig. None),
      Nodes_List = pages\<rparr>"

definition no_vms :: "string \<Rightarrow> iface \<times> error option" where
  "no_vms name = not_found"

definition cp1_vm :: "string \<Rightarrow> iface \<times> error option" where
  "cp1_vm name = (if name = ''cp-1'' then vm_in ''vm-cp-1'' ''Succeeded'' else not_found)"

definition cp1_ext :: "string \<Rightarrow> iface \<times> error option" where
  "cp1_ext name = (if name = ''cp-1'' then (OtherValue, None) else not_found)"

text \<open>A node inventory of two pages; the node of \<open>cp-1\<close> is on the second.\<close>

definition worker1_node :: Node where
  "worker1_node =
     \<lparr>node_Kind = ''Node'', node_APIVersion = ''v1'', node_Name = ''worker-1'',
      node_ProviderID = ''azure:////vm-worker-1''\<rparr>"

definition cp1_node :: Node where
  "cp1_node =
     \<lparr>node_Kind = ''Node'', node_APIVersion = ''v1'', node_Name = ''cp-1'',
      node_ProviderID = ''azure:////vm-cp-1''\<rparr>"

definition page_one :: NodeList where
  "page_one = \<lparr>Items = [worker1_node], Continue = ''page-2''\<rparr>"

definition page_two :: NodeList where
  "page_two = \<lparr>Items = [cp1_node], Continue = []\<rparr>"

definition two_pages :: "string \<Rightarrow> error + NodeList" where
  "two_pages continue =
     (if continue = [] then Inr page_one
      else if continue = ''page-2'' then Inr page_two
      else Inl (External ''expired continuation token''))"

definition no_pages :: "string \<Rightarrow> error + NodeList" where
  "no_pages continue = Inl (External ''connection refused'')"

definition cp1 :: Machine where
  "cp1 = machine_of ''cp-1'' role_ControlPlane"

definition cp2 :: Machine where
  "cp2 = machine_of ''cp-2'' role_ControlPlane"

definition worker1 :: Machine where
  "worker1 = machine_of ''worker-1'' role_Node"

definition bogus1 :: Machine where
  "bogus1 = machine_of ''bogus-1'' ''etcd''"

definition demo :: env where
  "demo = demo_env [worker1, cp1, cp2] cp1_vm cp1_ext two_pages"

text \<open>The same cluster when the VM service refuses to delete.\<close>

definition vm_delete_fails :: env where
  "vm_delete_fails = demo\<lparr>virtualMachinesSvc_Delete := (\<lambda>spec. Some (External ''conflict''))\<rparr>"

text \<open>The VM of \<open>cp-1\<close> was resized behind the reconciler's back.\<close>

definition resized_vm :: "string \<Rightarrow> iface \<times> error option" where
  "resized_vm name =
     (VirtualMachine \<lparr>ID = Some ''vm-cp-1'', ProvisioningState = Some ''Succeeded'',
                      HardwareProfile_VMSize = ''Standard_D4s_v3''\<rparr>, None)"

definition resized :: env where
  "resized = demo_env [worker1, cp1, cp2] resized_vm cp1_ext two_pages"

text \<open>Variations of the cluster used below.\<close>

definition ext_create_fails :: env where
  "ext_create_fails =
     demo\<lparr>virtualMachinesExtSvc_CreateOrUpdate := (\<lambda>spec. Some (External ''quota exceeded''))\<rparr>"

definition without_credentials :: "MachineScope \<Rightarrow> MachineScope" where
  "without_credentials s = s\<lparr>ClusterConfig := None\<rparr>"

definition only_workers :: env where
  "only_workers = demo_env [worker1] no_vms no_vms two_pages"

definition nothing_provisioned :: env where
  "nothing_provisioned = demo_env [worker1, cp1, cp2] no_vms no_vms two_pages"

definition cp1_without_extension :: env where
  "cp1_without_extension = demo_env [worker1, cp1, cp2] cp1_vm no_vms two_pages"

text \<open>
  \<open>cp-1\<close> is the only control-plane machine; its VM exists in state \<open>Failed\<close> with its
  extension, so Exists answers false and the machine is created again.
\<close>

definition cp1_failed_vm :: "string \<Rightarrow> iface \<times> error option" where
  "cp1_failed_vm name = (if name = ''cp-1'' then vm_in ''vm-cp-1'' ''Failed'' else not_found)"

definition sole_control_plane :: env where
  "sole_control_plane = demo_env [worker1, cp1] cp1_failed_vm cp1_ext two_pages"

text \<open>Every machine, whatever its label, has a VM of the desired size and an extension.\<close>

definition any_vm :: "string \<Rightarrow> iface \<times> error option" where
  "any_vm name = vm_in (''vm-'' @ name) ''Succeeded''"

definition any_ext :: "string \<Rightarrow> iface \<times> error option" where
  "any_ext name = (OtherValue, None)"

definition all_provisioned :: env where
  "all_provisioned = demo_env [worker1, cp1, bogus1] any_vm any_ext two_pages"

text \<open>The node inventory cannot be reached.\<close>

definition inventory_down :: env where
  "inventory_down = demo_env [worker1, cp1, cp2] cp1_vm cp1_ext no_pages"

text \<open>
  Scopes of \<open>cp-1\<close>: with a recorded VM identifier, as an earlier pass left it while
  the VM was still being created, and as Exists leaves it once the node is resolved.
\<close>

definition with_VMID :: "string \<Rightarrow> MachineScope \<Rightarrow> MachineScope" where
  "with_VMID vmid s = s\<lparr>MachineStatus := \<lparr>VMID = Some vmid, VMState = Some ''Succeeded''\<rparr>\<rparr>"

text \<open>The identifier of \<open>cp-1\<close> was recorded as the empty string.\<close>

definition empty_VMID :: MachineScope where
  "empty_VMID = with_VMID [] (scope_of cp1)"

definition recorded_creating :: MachineScope where
  "recorded_creating =
     (scope_of cp1)\<lparr>MachineStatus := \<lparr>VMID = Some ''vm-cp-1'', VMState = Some ''Creating''\<rparr>\<rparr>"

definition cp1_resolved :: MachineScope where
  "cp1_resolved =
     (scope_of cp1)
       \<lparr>Machine := cp1\<lparr>Spec_ProviderID := Some ''azure:////vm-cp-1'',
                        Status_NodeRef := Some \<lparr>Kind = ''Node'', APIVersion = ''v1'',
                                                ref_Name = ''cp-1''\<rparr>\<rparr>,
        MachineStatus := \<lparr>VMID = Some ''vm-cp-1'', VMState = Some ''Succeeded''\<rparr>\<rparr>"

section \<open>Properties\<close>

lemmas demo_defs =
  demo_def demo_env_def scope_of_def machine_of_def cp1_def cp2_def worker1_def bogus1_def
  cp1_vm_def cp1_ext_def no_vms_def two_pages_def page_one_def page_two_def worker1_node_def
  cp1_node_def no_pages_def not_found_def vm_in_def
  vmSpec_named_def nicSpec_of_def startupScript_of_def label_def scope_Name_def
  role_Node_def role_ControlPlane_def VMStateSucceeded_def VMStateUpdating_def

subsection \<open>Delete\<close>

text \<open>
  C7. In every Delete invocation the VM deletion is the first call and comes before
  the network-interface deletion; and when the VM deletion fails, its error is
  returned (wrapped) and no network-interface deletion is issued.
\<close>

theorem Delete_vm_before_nic:
  "comes_before is_vm_delete is_nic_delete (snd (Delete env s)) \<and>
   take 1 (snd (Delete env s)) = [VMDelete (vmSpec_named (Name (Machine s)))] \<and>
   (\<forall>e. virtualMachinesSvc_Delete env (vmSpec_named (Name (Machine s))) = Some e \<longrightarrow>
      fst (Delete env s) = Some (Wrap e ''failed to delete machine'') \<and>
      filter is_nic_delete (snd (Delete env s)) = [])"
  by (simp add: Delete_def Let_def split: option.splits)

theorem Delete_vm_before_nic_witness:
  "virtualMachinesSvc_Delete vm_delete_fails (vmSpec_named (Name (Machine (scope_of cp1))))
     = Some (External ''conflict'') \<and>
   fst (Delete vm_delete_fails (scope_of cp1))
     = Some (Wrap (External ''conflict'') ''failed to delete machine'') \<and>
   filter is_nic_delete (snd (Delete vm_delete_fails (scope_of cp1))) = [] \<and>
   comes_before is_vm_delete is_nic_delete (snd (Delete vm_delete_fails (scope_of cp1)))"
  using Delete_vm_before_nic [of vm_delete_fails "scope_of cp1"]
  by (simp add: vm_delete_fails_def demo_defs)

text \<open>
  C10, as stated, fails: when the VM service refuses to delete \<open>cp-1\<close>, Delete issues
  one external call, not two.
\<close>

theorem Delete_two_calls_counterexample:
  "snd (Delete vm_delete_fails (scope_of cp1)) = [VMDelete (vmSpec_named ''cp-1'')] \<and>
   length (snd (Delete vm_delete_fails (scope_of cp1))) \<noteq> 2"
  by (simp add: Delete_def vm_delete_fails_def demo_defs)

text \<open>
  C10, amended. Delete issues the VM deletion and, only if that succeeded, the
  network-interface deletion: exactly these two calls when the VM deletion succeeds,
  the VM deletion alone when it fails. No call of Delete reads or writes the startup
  extension.
\<close>

theorem Delete_calls:
  "snd (Delete env s) =
     (if virtualMachinesSvc_Delete env (vmSpec_named (Name (Machine s))) = None
      then [VMDelete (vmSpec_named (Name (Machine s))), NICDelete (nicSpec_of env s)]
      else [VMDelete (vmSpec_named (Name (Machine s)))]) \<and>
   filter touches_extension (snd (Delete env s)) = []"
  by (simp add: Delete_def Let_def split: option.splits)

theorem Delete_calls_witness:
  "virtualMachinesSvc_Delete demo (vmSpec_named (Name (Machine (scope_of cp1)))) = None \<and>
   snd (Delete demo (scope_of cp1)) =
     [VMDelete (vmSpec_named ''cp-1''), NICDelete (nicSpec_of demo (scope_of cp1))] \<and>
   filter touches_extension (snd (Delete demo (scope_of cp1))) = []"
  using Delete_calls [of demo "scope_of cp1"]
  by (simp add: demo_defs)

subsection \<open>Update\<close>

text \<open>
  C3. When the VM read succeeds and the desired VM size differs from the observed one,
  Update returns the immutable-state error and its only external call is the VM read;
  no call of Update is ever a mutation; and the immutable check is the comparison of
  the two VM sizes, whatever the other fields are.
\<close>

theorem Update_immutable:
  "(virtualMachinesSvc_Get env (vmSpec_named (Name (Machine s))) = (VirtualMachine vm, None) \<and>
    VMSize (MachineConfig s) \<noteq> vm_VMSize (SDKToVM env vm) \<longrightarrow>
      Update env s = (Some (Errorf ''found attempt to change immutable state''),
                      [VMGet (vmSpec_named (Name (Machine s)))])) \<and>
   filter is_mutation (snd (Update env s)) = [] \<and>
   isMachineOutdated machineSpec v = (VMSize machineSpec \<noteq> vm_VMSize v)"
  by (auto simp add: Update_def Let_def isMachineOutdated_def
           split: option.splits iface.splits prod.splits)

theorem Update_immutable_witness:
  "virtualMachinesSvc_Get resized (vmSpec_named (Name (Machine (scope_of cp1))))
     = resized_vm ''cp-1'' \<and>
   VMSize (MachineConfig (scope_of cp1)) = ''Standard_B2ms'' \<and>
   vm_VMSize (SDKToVM resized \<lparr>ID = Some ''vm-cp-1'', ProvisioningState = Some ''Succeeded'',
                               HardwareProfile_VMSize = ''Standard_D4s_v3''\<rparr>)
     = ''Standard_D4s_v3'' \<and>
   Update resized (scope_of cp1) =
     (Some (Errorf ''found attempt to change immutable state''),
      [VMGet (vmSpec_named ''cp-1'')])"
  using Update_immutable [of resized "scope_of cp1"
      "\<lparr>ID = Some ''vm-cp-1'', ProvisioningState = Some ''Succeeded'',
        HardwareProfile_VMSize = ''Standard_D4s_v3''\<rparr>"]
  by (simp add: resized_def resized_vm_def demo_defs)

subsection \<open>The join decision\<close>

lemma isNodeJoin_loop_filter:
  "isNodeJoin_loop env s ms = isNodeJoin_loop env s (control_plane_machines env ms)"
  by (induction ms) (simp_all add: control_plane_machines_def)

lemma control_plane_machines_Cons:
  "control_plane_machines env ms = cm # rest \<Longrightarrow> IsControlPlaneMachine env cm"
  unfolding control_plane_machines_def by (metis filter_eq_ConsD)

text \<open>
  C1, as stated, fails: the scan of the registry does not leave out the machine that is
  being decided. With \<open>cp-1\<close> the only control-plane machine of the registry (no other
  one), its own VM and extension present, the decision for \<open>cp-1\<close> is to join.
\<close>

theorem isNodeJoin_sole_control_plane_counterexample:
  "MachineClient_List sole_control_plane = Inr [worker1, cp1] \<and>
   label (Machine (scope_of cp1)) ''set'' = role_ControlPlane \<and>
   other_control_plane_machines sole_control_plane (scope_of cp1) [worker1, cp1] = [] \<and>
   fst (isNodeJoin sole_control_plane (scope_of cp1)) = (True, None)"
  by (simp add: isNodeJoin_def other_control_plane_machines_def sole_control_plane_def
        cp1_failed_vm_def demo_defs)

text \<open>
  C1, amended. Given the listing \<open>ms\<close> of the registry: a machine with role \<open>Node\<close>
  joins. For a machine with role \<open>ControlPlane\<close> the decision is not to join when
  the listing holds no control-plane machine at all; otherwise the first control-plane
  machine \<open>cm\<close> of the listing (which may be the machine itself) decides: no join when
  the VM of \<open>cm\<close> is not found (an error and a nil payload), no join when that VM is
  found but the extension of \<open>cm\<close> is not found, join when both are found.
\<close>

theorem isNodeJoin_decision:
  "MachineClient_List env = Inr ms \<longrightarrow>
    (label (Machine s) ''set'' = role_Node \<longrightarrow> isNodeJoin env s = ((True, None), [MachineList])) \<and>
    (label (Machine s) ''set'' = role_ControlPlane \<longrightarrow>
       (control_plane_machines env ms = [] \<longrightarrow> isNodeJoin env s = ((False, None), [MachineList])) \<and>
       (\<forall>cm rest. control_plane_machines env ms = cm # rest \<longrightarrow>
          (\<forall>e. virtualMachinesSvc_Get env (vmSpec_named (Name cm)) = (NilValue, Some e) \<longrightarrow>
               fst (isNodeJoin env s) = (False, None)) \<and>
          (\<forall>v. virtualMachinesSvc_Get env (vmSpec_named (Name cm)) = (v, None) \<longrightarrow>
             (\<forall>e. virtualMachinesExtSvc_Get env (startupScript_of (Name cm)) = (NilValue, Some e) \<longrightarrow>
                  fst (isNodeJoin env s) = (False, None)) \<and>
             (\<forall>x. virtualMachinesExtSvc_Get env (startupScript_of (Name cm)) = (x, None) \<longrightarrow>
                  fst (isNodeJoin env s) = (True, None)))))"
proof (intro impI conjI allI)
  assume "MachineClient_List env = Inr ms" "label (Machine s) ''set'' = role_Node"
  then show "isNodeJoin env s = ((True, None), [MachineList])"
    by (simp add: isNodeJoin_def)
next
  assume "MachineClient_List env = Inr ms" "label (Machine s) ''set'' = role_ControlPlane"
    "control_plane_machines env ms = []"
  then show "isNodeJoin env s = ((False, None), [MachineList])"
    using isNodeJoin_loop_filter [of env s ms]
    by (simp add: isNodeJoin_def role_Node_def role_ControlPlane_def)
next
  fix cm rest e
  assume "MachineClient_List env = Inr ms" "label (Machine s) ''set'' = role_ControlPlane"
    "control_plane_machines env ms = cm # rest"
    "virtualMachinesSvc_Get env (vmSpec_named (Name cm)) = (NilValue, Some e)"
  then show "fst (isNodeJoin env s) = (False, None)"
    using isNodeJoin_loop_filter [of env s ms] control_plane_machines_Cons [of env ms cm rest]
    by (simp add: isNodeJoin_def role_Node_def role_ControlPlane_def)
next
  fix cm rest v e
  assume "MachineClient_List env = Inr ms" "label (Machine s) ''set'' = role_ControlPlane"
    "control_plane_machines env ms = cm # rest"
    "virtualMachinesSvc_Get env (vmSpec_named (Name cm)) = (v, None)"
    "virtualMachinesExtSvc_Get env (startupScript_of (Name cm)) = (NilValue, Some e)"
  then show "fst (isNodeJoin env s) = (False, None)"
    using isNodeJoin_loop_filter [of env s ms] control_plane_machines_Cons [of env ms cm rest]
    by (simp add: isNodeJoin_def role_Node_def role_ControlPlane_def)
next
  fix cm rest v x
  assume "MachineClient_List env = Inr ms" "label (Machine s) ''set'' = role_ControlPlane"
    "control_plane_machines env ms = cm # rest"
    "virtualMachinesSvc_Get env (vmSpec_named (Name cm)) = (v, None)"
    "virtualMachinesExtSvc_Get env (startupScript_of (Name cm)) = (x, None)"
  then show "fst (isNodeJoin env s) = (True, None)"
    using isNodeJoin_loop_filter [of env s ms] control_plane_machines_Cons [of env ms cm rest]
    by (simp add: isNodeJoin_def role_Node_def role_ControlPlane_def)
qed

theorem isNodeJoin_decision_witness:
  "MachineClient_List demo = Inr [worker1, cp1, cp2] \<and>
   label (Machine (scope_of worker1)) ''set'' = role_Node \<and>
   isNodeJoin demo (scope_of worker1) = ((True, None), [MachineList]) \<and>
   label (Machine (scope_of cp2)) ''set'' = role_ControlPlane \<and>
   control_plane_machines only_workers [worker1] = [] \<and>
   isNodeJoin only_workers (scope_of cp2) = ((False, None), [MachineList]) \<and>
   control_plane_machines demo [worker1, cp1, cp2] = [cp1, cp2] \<and>
   virtualMachinesSvc_Get nothing_provisioned (vmSpec_named (Name cp1)) = not_found \<and>
   fst (isNodeJoin nothing_provisioned (scope_of cp2)) = (False, None) \<and>
   virtualMachinesSvc_Get cp1_without_extension (vmSpec_named (Name cp1))
     = vm_in ''vm-cp-1'' ''Succeeded'' \<and>
   virtualMachinesExtSvc_Get cp1_without_extension (startupScript_of (Name cp1)) = not_found \<and>
   fst (isNodeJoin cp1_without_extension (scope_of cp2)) = (False, None) \<and>
   virtualMachinesSvc_Get demo (vmSpec_named (Name cp1)) = vm_in ''vm-cp-1'' ''Succeeded'' \<and>
   virtualMachinesExtSvc_Get demo (startupScript_of (Name cp1)) = (OtherValue, None) \<and>
   fst (isNodeJoin demo (scope_of cp2)) = (True, None)"
  using isNodeJoin_decision [of demo "[worker1, cp1, cp2]" "scope_of worker1"]
    isNodeJoin_decision [of only_workers "[worker1]" "scope_of cp2"]
    isNodeJoin_decision [of nothing_provisioned "[worker1, cp1, cp2]" "scope_of cp2"]
    isNodeJoin_decision [of cp1_without_extension "[worker1, cp1, cp2]" "scope_of cp2"]
    isNodeJoin_decision [of demo "[worker1, cp1, cp2]" "scope_of cp2"]
  by (simp add: isNodeJoin_def control_plane_machines_def only_workers_def
        nothing_provisioned_def cp1_without_extension_def demo_defs)

subsection \<open>Machines with an unknown role\<close>

lemma Update_ignores_labels:
  "Update env (s\<lparr>Machine := (Machine s)\<lparr>Labels := labels\<rparr>\<rparr>) = Update env s"
  by (cases "virtualMachinesSvc_Get env (vmSpec_named (Name (Machine s)))")
     (auto simp: Update_def Let_def split: option.splits iface.splits)

text \<open>
  C4, as stated, fails: for the machine \<open>bogus-1\<close> with label \<open>etcd\<close>, Update succeeds
  after reading the VM (it never looks at the label), and the join decision has issued
  one external call, the listing of the registry, before it looks at the label.
\<close>

theorem unknown_role_counterexample:
  "label (Machine (scope_of bogus1)) ''set'' = ''etcd'' \<and>
   ''etcd'' \<noteq> role_Node \<and> ''etcd'' \<noteq> role_ControlPlane \<and>
   Update all_provisioned (scope_of bogus1) = (None, [VMGet (vmSpec_named ''bogus-1'')]) \<and>
   snd (isNodeJoin all_provisioned (scope_of bogus1)) = [MachineList]"
  by (simp add: Update_def isNodeJoin_def isMachineOutdated_def all_provisioned_def any_vm_def
        any_ext_def demo_defs)

text \<open>
  C4, amended. For a machine whose label \<open>set\<close> is neither \<open>Node\<close> nor
  \<open>ControlPlane\<close>, the join decision and Create issue exactly one external call, the
  listing of the machine registry, and fail: with the unknown-label error when the
  listing succeeded, with the wrapped listing error otherwise. Create leaves the scope
  as it was and touches no provider resource. Update does not depend on the labels.
\<close>

theorem unknown_role:
  "label (Machine s) ''set'' \<noteq> role_Node \<and> label (Machine s) ''set'' \<noteq> role_ControlPlane \<longrightarrow>
     isNodeJoin env s = ((False, Some (join_error env s)), [MachineList]) \<and>
     Create env s =
       (Some (Wrap (Wrap (join_error env s)
                      ''failed to determine whether machine should join cluster'')
                ''failed to check control plane machines in cluster''),
        s, [MachineList]) \<and>
     filter touches_provider (snd (snd (Create env s))) = [] \<and>
     (\<forall>labels. Update env (s\<lparr>Machine := (Machine s)\<lparr>Labels := labels\<rparr>\<rparr>) = Update env s)"
  by (simp add: isNodeJoin_def Create_def checkControlPlaneMachines_def join_error_def
        Update_ignores_labels split: sum.splits)

theorem unknown_role_witness:
  "label (Machine (scope_of bogus1)) ''set'' \<noteq> role_Node \<and>
   label (Machine (scope_of bogus1)) ''set'' \<noteq> role_ControlPlane \<and>
   join_error demo (scope_of bogus1) = unknown_set_label ''etcd'' ''bogus-1'' \<and>
   isNodeJoin demo (scope_of bogus1)
     = ((False, Some (unknown_set_label ''etcd'' ''bogus-1'')), [MachineList]) \<and>
   fst (Create demo (scope_of bogus1)) =
     Some (Wrap (Wrap (unknown_set_label ''etcd'' ''bogus-1'')
                   ''failed to determine whether machine should join cluster'')
             ''failed to check control plane machines in cluster'') \<and>
   snd (snd (Create demo (scope_of bogus1))) = [MachineList]"
  using unknown_role [of "scope_of bogus1" demo]
  by (simp add: join_error_def demo_defs)

subsection \<open>Create\<close>

lemma isNodeJoin_loop_no_token:
  "isNodeJoin_loop env s ms = (r, calls) \<Longrightarrow> filter is_token_request calls = []"
  by (induction ms arbitrary: r calls) (auto simp: Let_def split: prod.splits option.splits if_splits)

lemma isNodeJoin_no_token:
  "filter is_token_request (snd (isNodeJoin env s)) = []"
  by (auto simp: isNodeJoin_def Let_def split: sum.splits prod.splits
           dest: isNodeJoin_loop_no_token)

lemma checkControlPlaneMachines_tokens:
  "filter is_token_request (snd (checkControlPlaneMachines env s)) =
     (case ClusterConfig s of
        None \<Rightarrow> []
      | Some cc \<Rightarrow>
          if fst (isNodeJoin env s) = (True, None)
          then [TokenRequest (AdminKubeconfig cc) DefaultBootstrapTokenTTL] else [])"
  using isNodeJoin_no_token [of env s]
  by (auto simp: checkControlPlaneMachines_def split: prod.splits option.splits sum.splits)

lemma Create_tokens:
  "filter is_token_request (snd (snd (Create env s))) =
   filter is_token_request (snd (checkControlPlaneMachines env s))"
  by (auto simp: Create_def Let_def split: prod.splits option.splits sum.splits)

lemma Create_no_credentials:
  "fst (isNodeJoin env s) = (True, None) \<Longrightarrow> ClusterConfig s = None \<Longrightarrow> fst (Create env s) \<noteq> None"
  by (auto simp: Create_def checkControlPlaneMachines_def split: prod.splits option.splits)

text \<open>
  C6. The TTL constant is 10 minutes. In every Create invocation at most one token
  request is issued; any token request of the invocation carries that TTL and is
  issued only when the join decision returned join = true without an error; and when
  the decision is to join but the scope has no cluster configuration (no
  administrative credentials), Create returns an error and requests no token.
\<close>

theorem Create_token:
  "DefaultBootstrapTokenTTL = 10 * 60 * 1000000000 \<and>
   length (filter is_token_request (snd (snd (Create env s)))) \<le> 1 \<and>
   (\<forall>kubeconfig ttl. TokenRequest kubeconfig ttl \<in> set (snd (snd (Create env s))) \<longrightarrow>
      ttl = DefaultBootstrapTokenTTL \<and> fst (isNodeJoin env s) = (True, None)) \<and>
   (fst (isNodeJoin env s) = (True, None) \<and> ClusterConfig s = None \<longrightarrow>
      fst (Create env s) \<noteq> None \<and> filter is_token_request (snd (snd (Create env s))) = [])"
proof -
  let ?calls = "snd (snd (Create env s))"
  have tokens: "filter is_token_request ?calls =
     (case ClusterConfig s of
        None \<Rightarrow> []
      | Some cc \<Rightarrow>
          if fst (isNodeJoin env s) = (True, None)
          then [TokenRequest (AdminKubeconfig cc) DefaultBootstrapTokenTTL] else [])"
    by (simp add: Create_tokens checkControlPlaneMachines_tokens)
  have ttl: "DefaultBootstrapTokenTTL = 10 * 60 * 1000000000"
    by (simp add: DefaultBootstrapTokenTTL_def Minute_def Second_def)
  have once: "length (filter is_token_request ?calls) \<le> 1"
    by (simp add: tokens split: option.splits)
  have only: "ttl = DefaultBootstrapTokenTTL \<and> fst (isNodeJoin env s) = (True, None)"
    if "TokenRequest kubeconfig ttl \<in> set ?calls" for kubeconfig ttl
  proof -
    from that have "TokenRequest kubeconfig ttl \<in> set (filter is_token_request ?calls)"
      by simp
    then show ?thesis
      unfolding tokens by (auto split: option.splits if_splits)
  qed
  have lacking: "fst (Create env s) \<noteq> None \<and> filter is_token_request ?calls = []"
    if "fst (isNodeJoin env s) = (True, None)" "ClusterConfig s = None"
    using that Create_no_credentials [of env s] by (simp add: tokens)
  from ttl once only lacking show ?thesis by blast
qed

theorem Create_token_witness:
  "TokenRequest ''admin.conf'' 600000000000 \<in> set (snd (snd (Create demo (scope_of cp2)))) \<and>
   DefaultBootstrapTokenTTL = 600000000000 \<and>
   fst (isNodeJoin demo (scope_of cp2)) = (True, None) \<and>
   fst (isNodeJoin demo (without_credentials (scope_of cp2))) = (True, None) \<and>
   ClusterConfig (without_credentials (scope_of cp2)) = None \<and>
   fst (Create demo (without_credentials (scope_of cp2))) \<noteq> None \<and>
   filter is_token_request (snd (snd (Create demo (without_credentials (scope_of cp2))))) = []"
  using Create_token [of demo "scope_of cp2"]
    Create_token [of demo "without_credentials (scope_of cp2)"]
  by (simp add: Create_def checkControlPlaneMachines_def isNodeJoin_def
        networkInterfaceSpec_for_def vmSpec_for_def vmExtSpec_for_def mark_provisioned_def
        without_credentials_def DefaultBootstrapTokenTTL_def Minute_def Second_def demo_defs)

text \<open>
  C8. When the join check, the network interface, the VM and the startup script have
  all succeeded and the creation of the startup extension returns an error, Create
  still returns success; the extension call is the last call it issued.
\<close>

theorem Create_swallows_extension_error:
  "checkControlPlaneMachines env s = ((bootstrapToken, None), c0) \<and>
   networkInterfaceSpec_for env s = Some networkInterfaceSpec \<and>
   networkInterfacesSvc_CreateOrUpdate env networkInterfaceSpec = None \<and>
   virtualMachinesSvc_CreateOrUpdate env (vmSpec_for env s networkInterfaceSpec) = None \<and>
   GetVMStartupScript env s bootstrapToken = Inr scriptData \<and>
   virtualMachinesExtSvc_CreateOrUpdate env (vmExtSpec_for env s scriptData) = Some e
   \<longrightarrow>
     fst (Create env s) = None \<and>
     snd (snd (Create env s)) =
       c0 @ [NICCreateOrUpdate networkInterfaceSpec,
             VMCreateOrUpdate (vmSpec_for env s networkInterfaceSpec),
             ExtCreateOrUpdate (vmExtSpec_for env s scriptData)]"
  by (simp add: Create_def Let_def)

theorem Create_swallows_extension_error_witness:
  "checkControlPlaneMachines ext_create_fails (scope_of worker1) =
     ((''abcdef.0123456789abcdef'', None), [MachineList, TokenRequest ''admin.conf'' 600000000000]) \<and>
   networkInterfaceSpec_for ext_create_fails (scope_of worker1) =
     Some \<lparr>nic_Name = ''worker-1-nic'', VnetName = ''demo-vnet'',
           SubnetName = ''demo-node-subnet'', PublicLoadBalancerName = [],
           InternalLoadBalancerName = [], NatRule = None\<rparr> \<and>
   networkInterfacesSvc_CreateOrUpdate ext_create_fails
       \<lparr>nic_Name = ''worker-1-nic'', VnetName = ''demo-vnet'',
        SubnetName = ''demo-node-subnet'', PublicLoadBalancerName = [],
        InternalLoadBalancerName = [], NatRule = None\<rparr> = None \<and>
   virtualMachinesSvc_CreateOrUpdate ext_create_fails
       \<lparr>vm_Name = ''worker-1'', NICName = ''worker-1-nic'', SSHKeyData = ''c3NoLXJzYQ=='',
        Size = ''Standard_B2ms'', spec_OSDisk = ''Linux'', spec_Image = ''UbuntuServer''\<rparr> = None \<and>
   GetVMStartupScript ext_create_fails (scope_of worker1) ''abcdef.0123456789abcdef''
     = Inr ''kubeadm abcdef.0123456789abcdef'' \<and>
   virtualMachinesExtSvc_CreateOrUpdate ext_create_fails
       (vmExtSpec_for ext_create_fails (scope_of worker1) ''kubeadm abcdef.0123456789abcdef'')
     = Some (External ''quota exceeded'') \<and>
   fst (Create ext_create_fails (scope_of worker1)) = None"
  using Create_swallows_extension_error [of ext_create_fails "scope_of worker1"
      "''abcdef.0123456789abcdef''" "[MachineList, TokenRequest ''admin.conf'' 600000000000]"
      "\<lparr>nic_Name = ''worker-1-nic'', VnetName = ''demo-vnet'',
        SubnetName = ''demo-node-subnet'', PublicLoadBalancerName = [],
        InternalLoadBalancerName = [], NatRule = None\<rparr>"
      "''kubeadm abcdef.0123456789abcdef''" "External ''quota exceeded''"]
  by (simp add: checkControlPlaneMachines_def isNodeJoin_def networkInterfaceSpec_for_def
        vmSpec_for_def vmExtSpec_for_def ext_create_fails_def
        DefaultBootstrapTokenTTL_def Minute_def Second_def demo_defs)

subsection \<open>Node-identity resolution\<close>

lemma HasPrefix_iff: "HasPrefix s p \<longleftrightarrow> (\<exists>q. s = p @ q)"
  by (induction s p rule: HasPrefix.induct) auto

lemma Contains_iff: "Contains s substr \<longleftrightarrow> (\<exists>p q. s = p @ substr @ q)"
proof (induction s)
  case Nil
  then show ?case by auto
next
  case (Cons c cs)
  have "(\<exists>p q. c # cs = p @ substr @ q) \<longleftrightarrow>
        (\<exists>q. c # cs = substr @ q) \<or> (\<exists>p q. cs = p @ substr @ q)"
  proof
    assume "\<exists>p q. c # cs = p @ substr @ q"
    then obtain p q where pq: "c # cs = p @ substr @ q" by blast
    show "(\<exists>q. c # cs = substr @ q) \<or> (\<exists>p q. cs = p @ substr @ q)"
    proof (cases p)
      case Nil
      with pq show ?thesis by auto
    next
      case (Cons a p')
      with pq show ?thesis by auto
    qed
  next
    assume "(\<exists>q. c # cs = substr @ q) \<or> (\<exists>p q. cs = p @ substr @ q)"
    then show "\<exists>p q. c # cs = p @ substr @ q"
    proof
      assume "\<exists>q. c # cs = substr @ q"
      then obtain q where "c # cs = [] @ substr @ q" by auto
      then show ?thesis by blast
    next
      assume "\<exists>p q. cs = p @ substr @ q"
      then obtain p q where "c # cs = (c # p) @ substr @ q" by auto
      then show ?thesis by blast
    qed
  qed
  with Cons show ?case by (simp add: HasPrefix_iff)
qed

text \<open>The empty string is contained in every string: an empty identifier matches any node.\<close>

lemma Contains_empty: "Contains s []"
  by (induction s) auto

lemma find_append_cases:
  "find P (xs @ ys) = (case find P xs of None \<Rightarrow> find P ys | Some x \<Rightarrow> Some x)"
  by (induction xs) auto

lemma find_first:
  "\<forall>n\<in>set before. \<not> P n \<Longrightarrow> P x \<Longrightarrow> find P (before @ x # after) = Some x"
  by (induction before) auto

text \<open>
  Over the pages it lists, the loop returns the first matching node of the pages in
  order, or the not-found error when the last page has no match and the empty token.
\<close>

lemma loop_listed:
  "listed env instanceID continue pages \<Longrightarrow>
   getNodeReference_loop env s instanceID continue calls =
     Some (case find (node_matches instanceID) (concat (map Items pages)) of
             Some node \<Rightarrow> Inr (reference_of node)
           | None \<Rightarrow> Inl (Errorf (''no node found for machine '' @ scope_Name s)),
           calls @ page_listings continue pages)"
proof (induction pages arbitrary: continue calls)
  case Nil
  then show ?case by simp
next
  case (Cons p ps)
  from Cons.prems have p: "Nodes_List env continue = Inr p" by simp
  show ?case
  proof (cases "ps = []")
    case True
    show ?thesis
    proof (cases "find (node_matches instanceID) (Items p)")
      case (Some node)
      with p True show ?thesis
        by (subst getNodeReference_loop.simps) simp
    next
      case None
      with Cons.prems True have "Continue p = []" by simp
      with p True None show ?thesis
        by (subst getNodeReference_loop.simps) simp
    qed
  next
    case False
    with Cons.prems have step: "find (node_matches instanceID) (Items p) = None"
      "Continue p \<noteq> []" "listed env instanceID (Continue p) ps" by simp_all
    with Cons.IH [of "Continue p" "calls @ [NodesList continue]"] p show ?thesis
      by (subst getNodeReference_loop.simps) (simp add: find_append_cases)
  qed
qed

text \<open>
  What the resolution does. Without a recorded VM identifier (a nil \<open>VMID\<close>) it
  returns the error "instance id is empty" and lists nothing. With a recorded
  identifier (any string), credentials and a client, and \<open>pages\<close> the pages it lists:
  if no node of these pages matches, the result is the not-found error; if \<open>node\<close> is
  the first node, in page order, that matches, the result is the kind, API version and
  name of \<open>node\<close>. A node matches when its provider id contains the identifier as a
  contiguous substring.
\<close>

lemma getNodeReference_pages:
  "(VMID (MachineStatus s) = None \<longrightarrow>
      getNodeReference env s =
        Some (Inl (Errorf (''instance id is empty for machine '' @ Name (Machine s))), [])) \<and>
   (VMID (MachineStatus s) = Some instanceID \<and> ClusterConfig s = Some cc \<and>
    coreV1Client env (AdminKubeconfig cc) = None \<and> listed env instanceID [] pages \<longrightarrow>
      ((\<forall>node\<in>set (concat (map Items pages)). \<not> node_matches instanceID node) \<longrightarrow>
         getNodeReference env s =
           Some (Inl (Errorf (''no node found for machine '' @ scope_Name s)),
                 page_listings [] pages)) \<and>
      (concat (map Items pages) = before @ node # after \<and>
       (\<forall>n\<in>set before. \<not> node_matches instanceID n) \<and> node_matches instanceID node \<longrightarrow>
         getNodeReference env s =
           Some (Inr \<lparr>Kind = node_Kind node, APIVersion = node_APIVersion node,
                      ref_Name = node_Name node\<rparr>,
                 page_listings [] pages))) \<and>
   (node_matches instanceID node' \<longleftrightarrow> (\<exists>p q. node_ProviderID node' = p @ instanceID @ q))"
proof (intro conjI impI)
  assume "VMID (MachineStatus s) = None"
  then show "getNodeReference env s =
        Some (Inl (Errorf (''instance id is empty for machine '' @ Name (Machine s))), [])"
    by (simp add: getNodeReference_def)
next
  assume h: "VMID (MachineStatus s) = Some instanceID \<and> ClusterConfig s = Some cc \<and>
    coreV1Client env (AdminKubeconfig cc) = None \<and> listed env instanceID [] pages"
    and none: "\<forall>node\<in>set (concat (map Items pages)). \<not> node_matches instanceID node"
  from none have "find (node_matches instanceID) (concat (map Items pages)) = None"
    unfolding find_None_iff by blast
  with h loop_listed [of env instanceID "[]" pages s "[]"]
  show "getNodeReference env s =
           Some (Inl (Errorf (''no node found for machine '' @ scope_Name s)),
                 page_listings [] pages)"
    by (simp add: getNodeReference_def)
next
  assume h: "VMID (MachineStatus s) = Some instanceID \<and> ClusterConfig s = Some cc \<and>
    coreV1Client env (AdminKubeconfig cc) = None \<and> listed env instanceID [] pages"
    and first: "concat (map Items pages) = before @ node # after \<and>
         (\<forall>n\<in>set before. \<not> node_matches instanceID n) \<and> node_matches instanceID node"
  from first have "find (node_matches instanceID) (concat (map Items pages)) = Some node"
    by (simp add: find_first)
  with h loop_listed [of env instanceID "[]" pages s "[]"]
  show "getNodeReference env s =
             Some (Inr \<lparr>Kind = node_Kind node, APIVersion = node_APIVersion node,
                        ref_Name = node_Name node\<rparr>,
                   page_listings [] pages)"
    by (simp add: getNodeReference_def reference_of_def)
next
  show "node_matches instanceID node' \<longleftrightarrow> (\<exists>p q. node_ProviderID node' = p @ instanceID @ q)"
    by (simp add: node_matches_def Contains_iff)
qed

lemma getNodeReference_pages_example:
  "VMID (MachineStatus (scope_of cp1)) = None \<and>
   getNodeReference demo (scope_of cp1) =
     Some (Inl (Errorf ''instance id is empty for machine cp-1''), []) \<and>
   coreV1Client demo ''admin.conf'' = None \<and>
   listed demo ''vm-cp-1'' [] [page_one, page_two] \<and>
   \<not> node_matches ''vm-cp-1'' worker1_node \<and> node_matches ''vm-cp-1'' cp1_node \<and>
   getNodeReference demo (with_VMID ''vm-cp-1'' (scope_of cp1)) =
     Some (Inr \<lparr>Kind = ''Node'', APIVersion = ''v1'', ref_Name = ''cp-1''\<rparr>,
           [NodesList [], NodesList ''page-2'']) \<and>
   listed demo ''vm-cp-9'' [] [page_one, page_two] \<and>
   \<not> node_matches ''vm-cp-9'' worker1_node \<and> \<not> node_matches ''vm-cp-9'' cp1_node \<and>
   getNodeReference demo (with_VMID ''vm-cp-9'' (scope_of cp1)) =
     Some (Inl (Errorf ''no node found for machine cp-1''),
           [NodesList [], NodesList ''page-2''])"
  using getNodeReference_pages [where env = demo and s = "scope_of cp1", THEN conjunct1]
    getNodeReference_pages [where env = demo and s = "with_VMID ''vm-cp-1'' (scope_of cp1)"
      and instanceID = "''vm-cp-1''" and cc = "\<lparr>AdminKubeconfig = ''admin.conf''\<rparr>"
      and pages = "[page_one, page_two]" and before = "[worker1_node]" and node = cp1_node
      and after = "[]", THEN conjunct2, THEN conjunct1]
    getNodeReference_pages [where env = demo and s = "with_VMID ''vm-cp-9'' (scope_of cp1)"
      and instanceID = "''vm-cp-9''" and cc = "\<lparr>AdminKubeconfig = ''admin.conf''\<rparr>"
      and pages = "[page_one, page_two]", THEN conjunct2, THEN conjunct1]
  by (simp add: with_VMID_def coreV1Client_def node_matches_def demo_defs)

text \<open>
  C5. The claim asks that an empty VM identifier be rejected as a precondition error
  and that no node be returned unless it is the machine's. The code rejects only the
  nil identifier. With the identifier of \<open>cp-1\<close> recorded as the empty string the
  resolution is not rejected: every provider id contains the empty string, so it
  lists the first page and returns the reference of \<open>worker-1\<close>, the first node of
  the inventory, while the node of \<open>cp-1\<close> is on the second page. The provider-id
  backfill of Exists, in the same file, does treat nil and the empty string alike.
\<close>

theorem getNodeReference_empty_identifier:
  "VMID (MachineStatus empty_VMID) = Some [] \<and>
   ClusterConfig empty_VMID = Some \<lparr>AdminKubeconfig = ''admin.conf''\<rparr> \<and>
   Name (Machine empty_VMID) = ''cp-1'' \<and>
   Nodes_List demo [] = Inr page_one \<and> Items page_one = [worker1_node] \<and>
   node_ProviderID worker1_node = ''azure:////vm-worker-1'' \<and>
   getNodeReference demo empty_VMID =
     Some (Inr \<lparr>Kind = ''Node'', APIVersion = ''v1'', ref_Name = ''worker-1''\<rparr>,
           [NodesList []]) \<and>
   backfill_ProviderID (scope_of cp1) ''vm-cp-1''
     = backfill_ProviderID
         ((scope_of cp1)\<lparr>Machine := (Machine (scope_of cp1))\<lparr>Spec_ProviderID := Some []\<rparr>\<rparr>)
         ''vm-cp-1''"
  by (simp add: empty_VMID_def with_VMID_def getNodeReference_def coreV1Client_def
        node_matches_def reference_of_def backfill_ProviderID_def
        getNodeReference_loop.simps demo_defs)

subsection \<open>Exists\<close>

lemma loop_returns:
  "paging_ends env n continue \<Longrightarrow>
   \<exists>r calls'. getNodeReference_loop env s instanceID continue calls = Some (r, calls')"
proof (induction n arbitrary: continue calls)
  case 0
  then show ?case by simp
next
  case (Suc n)
  show ?case
  proof (cases "Nodes_List env continue")
    case (Inl err)
    then show ?thesis by (subst getNodeReference_loop.simps) simp
  next
    case (Inr nodeList)
    show ?thesis
    proof (cases "find (node_matches instanceID) (Items nodeList)")
      case (Some node)
      with Inr show ?thesis by (subst getNodeReference_loop.simps) simp
    next
      case None
      show ?thesis
      proof (cases "Continue nodeList = []")
        case True
        with Inr None show ?thesis by (subst getNodeReference_loop.simps) simp
      next
        case False
        with Suc.prems Inr have "paging_ends env n (Continue nodeList)" by simp
        from Suc.IH [OF this, of "calls @ [NodesList continue]"] Inr None False
        show ?thesis by (subst getNodeReference_loop.simps) simp
      qed
    qed
  qed
qed

lemma getNodeReference_returns:
  "paging_ends env n [] \<Longrightarrow> \<exists>r calls. getNodeReference env s = Some (r, calls)"
  using loop_returns [of env n "[]" s _ "[]"]
  by (auto simp: getNodeReference_def split: option.splits)

lemma Exists_ready:
  assumes "isVMExists env s = (Return (True, None), s1, c1)"
    and "VMState (MachineStatus s1) = Some vmState"
    and "vmState = VMStateSucceeded \<or> vmState = VMStateUpdating"
    and "VMID (MachineStatus s1) = Some vmid"
    and "paging_ends env n []"
  shows "outcome env s = Some (Return (True, None))"
proof -
  obtain r c2 where "getNodeReference env (backfill_ProviderID s1 vmid) = Some (r, c2)"
    using getNodeReference_returns [OF assms(5)] by blast
  with assms(1-4) show ?thesis
    by (cases r) (auto simp: outcome_def Exists_def Let_def)
qed

text \<open>
  C2. Exists returns \<open>(false, nil)\<close> when the VM is not found; when the VM is read and
  its extension is not found; and when the VM is read, the extension lookup returns
  without error and the provisioning state is neither \<open>Succeeded\<close> nor \<open>Updating\<close>.
  It returns \<open>(true, nil)\<close> when the VM is read with an identifier and a state
  \<open>Succeeded\<close> or \<open>Updating\<close> and the extension is found, whatever the node-reference
  resolution answers, as soon as the paging of the node inventory comes to an end
  (with an error or a last page).
\<close>

theorem Exists_answers:
  "(virtualMachinesSvc_Get env (vmSpec_named (scope_Name s)) = (NilValue, Some e) \<longrightarrow>
      Exists env s = Some (Return (False, None), s, [VMGet (vmSpec_named (scope_Name s))])) \<and>
   (virtualMachinesSvc_Get env (vmSpec_named (scope_Name s)) = (VirtualMachine vm, None) \<and>
    virtualMachinesExtSvc_Get env (startupScript_of (scope_Name s)) = (NilValue, Some e') \<longrightarrow>
      Exists env s =
        Some (Return (False, None), s,
              [VMGet (vmSpec_named (scope_Name s)), ExtGet (startupScript_of (scope_Name s))])) \<and>
   (virtualMachinesSvc_Get env (vmSpec_named (scope_Name s)) = (VirtualMachine vm, None) \<and>
    virtualMachinesExtSvc_Get env (startupScript_of (scope_Name s)) = (vmExt, None) \<and>
    ProvisioningState vm = Some vmState \<and>
    vmState \<noteq> VMStateSucceeded \<and> vmState \<noteq> VMStateUpdating \<longrightarrow>
      outcome env s = Some (Return (False, None))) \<and>
   (virtualMachinesSvc_Get env (vmSpec_named (scope_Name s)) = (VirtualMachine vm, None) \<and>
    virtualMachinesExtSvc_Get env (startupScript_of (scope_Name s)) = (vmExt, None) \<and>
    ProvisioningState vm = Some vmState \<and>
    (vmState = VMStateSucceeded \<or> vmState = VMStateUpdating) \<and>
    ID vm = Some vmid \<and> paging_ends env n [] \<longrightarrow>
      outcome env s = Some (Return (True, None)))"
proof (intro conjI impI)
  assume "virtualMachinesSvc_Get env (vmSpec_named (scope_Name s)) = (NilValue, Some e)"
  then show "Exists env s = Some (Return (False, None), s, [VMGet (vmSpec_named (scope_Name s))])"
    by (simp add: Exists_def isVMExists_def)
next
  assume "virtualMachinesSvc_Get env (vmSpec_named (scope_Name s)) = (VirtualMachine vm, None) \<and>
    virtualMachinesExtSvc_Get env (startupScript_of (scope_Name s)) = (NilValue, Some e')"
  then show "Exists env s =
           Some (Return (False, None), s,
                 [VMGet (vmSpec_named (scope_Name s)), ExtGet (startupScript_of (scope_Name s))])"
    by (simp add: Exists_def isVMExists_def)
next
  assume "virtualMachinesSvc_Get env (vmSpec_named (scope_Name s)) = (VirtualMachine vm, None) \<and>
    virtualMachinesExtSvc_Get env (startupScript_of (scope_Name s)) = (vmExt, None) \<and>
    ProvisioningState vm = Some vmState \<and>
    vmState \<noteq> VMStateSucceeded \<and> vmState \<noteq> VMStateUpdating"
  then show "outcome env s = Some (Return (False, None))"
    by (simp add: outcome_def Exists_def isVMExists_def)
next
  assume h: "virtualMachinesSvc_Get env (vmSpec_named (scope_Name s)) = (VirtualMachine vm, None) \<and>
    virtualMachinesExtSvc_Get env (startupScript_of (scope_Name s)) = (vmExt, None) \<and>
    ProvisioningState vm = Some vmState \<and>
    (vmState = VMStateSucceeded \<or> vmState = VMStateUpdating) \<and>
    ID vm = Some vmid \<and> paging_ends env n []"
  let ?s1 = "s\<lparr>MachineStatus := (MachineStatus s)\<lparr>VMID := ID vm, VMState := Some vmState\<rparr>\<rparr>"
  from h have "isVMExists env s =
      (Return (True, None), ?s1,
       [VMGet (vmSpec_named (scope_Name s)), ExtGet (startupScript_of (scope_Name s))])"
    by (simp add: isVMExists_def)
  from Exists_ready [OF this, of vmState vmid n] h
  show "outcome env s = Some (Return (True, None))" by simp
qed

text \<open>
  Outside these cases Exists does not answer with a plain yes or no: a hard error of
  the extension lookup is returned to the caller, and a VM payload without an
  identifier makes the log line of the ready states dereference a nil pointer.
\<close>

lemma Exists_extension_error:
  "virtualMachinesSvc_Get env (vmSpec_named (scope_Name s)) = (VirtualMachine vm, None) \<Longrightarrow>
   virtualMachinesExtSvc_Get env (startupScript_of (scope_Name s)) = (vmExt, Some e) \<Longrightarrow>
   vmExt \<noteq> NilValue \<Longrightarrow>
   outcome env s = Some (Return (False, Some (Wrap e ''failed to get vm extension'')))"
  by (simp add: outcome_def Exists_def isVMExists_def)

lemma Exists_without_ID:
  "virtualMachinesSvc_Get env (vmSpec_named (scope_Name s)) = (VirtualMachine vm, None) \<Longrightarrow>
   virtualMachinesExtSvc_Get env (startupScript_of (scope_Name s)) = (vmExt, None) \<Longrightarrow>
   ProvisioningState vm = Some vmState \<Longrightarrow>
   vmState = VMStateSucceeded \<or> vmState = VMStateUpdating \<Longrightarrow> ID vm = None \<Longrightarrow>
   outcome env s = Some Panic"
  by (auto simp: outcome_def Exists_def isVMExists_def)

lemmas run_defs =
  Exists_def isVMExists_def getNodeReference_def coreV1Client_def backfill_ProviderID_def
  node_matches_def reference_of_def outcome_def status_after_def

theorem Exists_answers_witness:
  "virtualMachinesSvc_Get nothing_provisioned (vmSpec_named (scope_Name (scope_of cp1)))
     = not_found \<and>
   Exists nothing_provisioned (scope_of cp1)
     = Some (Return (False, None), scope_of cp1, [VMGet (vmSpec_named ''cp-1'')]) \<and>
   virtualMachinesSvc_Get cp1_without_extension (vmSpec_named (scope_Name (scope_of cp1)))
     = vm_in ''vm-cp-1'' ''Succeeded'' \<and>
   virtualMachinesExtSvc_Get cp1_without_extension (startupScript_of (scope_Name (scope_of cp1)))
     = not_found \<and>
   Exists cp1_without_extension (scope_of cp1)
     = Some (Return (False, None), scope_of cp1,
             [VMGet (vmSpec_named ''cp-1''), ExtGet (startupScript_of ''cp-1'')]) \<and>
   virtualMachinesSvc_Get sole_control_plane (vmSpec_named (scope_Name (scope_of cp1)))
     = vm_in ''vm-cp-1'' ''Failed'' \<and>
   virtualMachinesExtSvc_Get sole_control_plane (startupScript_of (scope_Name (scope_of cp1)))
     = (OtherValue, None) \<and>
   ''Failed'' \<noteq> VMStateSucceeded \<and> ''Failed'' \<noteq> VMStateUpdating \<and>
   outcome sole_control_plane (scope_of cp1) = Some (Return (False, None)) \<and>
   virtualMachinesSvc_Get demo (vmSpec_named (scope_Name (scope_of cp1)))
     = vm_in ''vm-cp-1'' ''Succeeded'' \<and>
   virtualMachinesExtSvc_Get demo (startupScript_of (scope_Name (scope_of cp1)))
     = (OtherValue, None) \<and>
   ''Succeeded'' = VMStateSucceeded \<and>
   paging_ends demo (Suc (Suc 0)) [] \<and>
   outcome demo (scope_of cp1) = Some (Return (True, None)) \<and>
   paging_ends inventory_down (Suc 0) [] \<and>
   outcome inventory_down (scope_of cp1) = Some (Return (True, None))"
  using
    Exists_answers [where env = nothing_provisioned and s = "scope_of cp1"
      and e = "External ''not found''", THEN conjunct1]
    Exists_answers [where env = cp1_without_extension and s = "scope_of cp1"
      and vm = "\<lparr>ID = Some ''vm-cp-1'', ProvisioningState = Some ''Succeeded'',
                 HardwareProfile_VMSize = ''Standard_B2ms''\<rparr>"
      and e' = "External ''not found''", THEN conjunct2, THEN conjunct1]
    Exists_answers [where env = sole_control_plane and s = "scope_of cp1"
      and vm = "\<lparr>ID = Some ''vm-cp-1'', ProvisioningState = Some ''Failed'',
                 HardwareProfile_VMSize = ''Standard_B2ms''\<rparr>"
      and vmExt = OtherValue and vmState = "''Failed''",
      THEN conjunct2, THEN conjunct2, THEN conjunct1]
    Exists_answers [where env = demo and s = "scope_of cp1"
      and vm = "\<lparr>ID = Some ''vm-cp-1'', ProvisioningState = Some ''Succeeded'',
                 HardwareProfile_VMSize = ''Standard_B2ms''\<rparr>"
      and vmExt = OtherValue and vmState = "''Succeeded''" and vmid = "''vm-cp-1''"
      and n = "Suc (Suc 0)", THEN conjunct2, THEN conjunct2, THEN conjunct2]
    Exists_answers [where env = inventory_down and s = "scope_of cp1"
      and vm = "\<lparr>ID = Some ''vm-cp-1'', ProvisioningState = Some ''Succeeded'',
                 HardwareProfile_VMSize = ''Standard_B2ms''\<rparr>"
      and vmExt = OtherValue and vmState = "''Succeeded''" and vmid = "''vm-cp-1''"
      and n = "Suc 0", THEN conjunct2, THEN conjunct2, THEN conjunct2]
  by (simp add: nothing_provisioned_def cp1_without_extension_def sole_control_plane_def
        cp1_failed_vm_def inventory_down_def demo_defs)

subsection \<open>The status fields\<close>

lemma isVMExists_scope:
  "isVMExists env s = (r, s1, c1) \<Longrightarrow>
     Machine s1 = Machine s \<and> Cluster_Name s1 = Cluster_Name s \<and>
     MachineConfig s1 = MachineConfig s \<and> ClusterConfig s1 = ClusterConfig s"
  by (auto simp: isVMExists_def Let_def split: prod.splits option.splits iface.splits if_splits)

text \<open>
  The VM check reads the scope's machine name only, and writes only the status: on a
  scope of the same name that already carries the resulting status it changes nothing.
\<close>

lemma isVMExists_again:
  "isVMExists env s = (r, s1, c1) \<Longrightarrow> Name (Machine s') = Name (Machine s) \<Longrightarrow>
   MachineStatus s' = MachineStatus s1 \<Longrightarrow> isVMExists env s' = (r, s', c1)"
  by (auto simp: isVMExists_def Let_def scope_Name_def
           split: prod.splits option.splits iface.splits if_splits)

lemma backfill_ProviderID_again:
  "backfill_ProviderID (backfill_ProviderID s vmid) vmid = backfill_ProviderID s vmid"
  by (simp add: backfill_ProviderID_def)

lemma backfill_ProviderID_scope:
  "Name (Machine (backfill_ProviderID s vmid)) = Name (Machine s) \<and>
   Status_NodeRef (Machine (backfill_ProviderID s vmid)) = Status_NodeRef (Machine s) \<and>
   MachineStatus (backfill_ProviderID s vmid) = MachineStatus s"
  by (simp add: backfill_ProviderID_def)

lemma Exists_again:
  assumes "Exists env s = Some (r, s', calls)"
  shows "\<exists>calls'. Exists env s' = Some (r, s', calls')"
proof -
  obtain r1 s1 c1 where vm: "isVMExists env s = (r1, s1, c1)"
    by (metis prod_cases3)
  note same = isVMExists_scope [OF vm]
  note again = isVMExists_again [OF vm]
  have direct: "Exists env s1 = Some (r, s1, c1)" if "Exists env s = Some (r, s1, c1)"
    "\<And>vmState vmid. r1 = Return (True, None) \<Longrightarrow> VMState (MachineStatus s1) = Some vmState \<Longrightarrow>
       vmState = VMStateSucceeded \<or> vmState = VMStateUpdating \<Longrightarrow>
       VMID (MachineStatus s1) = Some vmid \<Longrightarrow> False"
  proof -
    from same have "isVMExists env s1 = (r1, s1, c1)" by (intro again) simp_all
    with that vm show ?thesis
      by (auto simp: Exists_def split: result.splits option.splits if_splits prod.splits)
  qed
  show ?thesis
  proof (cases "\<exists>vmState vmid. r1 = Return (True, None) \<and> VMState (MachineStatus s1) = Some vmState \<and>
       (vmState = VMStateSucceeded \<or> vmState = VMStateUpdating) \<and>
       VMID (MachineStatus s1) = Some vmid")
    case False
    with assms vm have "s' = s1" "calls = c1"
      by (auto simp: Exists_def split: result.splits option.splits if_splits prod.splits)
    with assms False direct show ?thesis by blast
  next
    case True
    then obtain vmState vmid where ready: "r1 = Return (True, None)"
      "VMState (MachineStatus s1) = Some vmState"
      "vmState = VMStateSucceeded \<or> vmState = VMStateUpdating"
      "VMID (MachineStatus s1) = Some vmid" by blast
    let ?s2 = "backfill_ProviderID s1 vmid"
    note s2 = backfill_ProviderID_scope [of s1 vmid]
    show ?thesis
    proof (cases "Status_NodeRef (Machine ?s2)")
      case (Some ref)
      with assms vm ready have res: "r = Return (True, None)" "s' = ?s2"
        by (auto simp: Exists_def Let_def)
      from same s2 have "isVMExists env ?s2 = (r1, ?s2, c1)" by (intro again) simp_all
      with ready s2 Some res show ?thesis
        by (auto simp: Exists_def Let_def backfill_ProviderID_again)
    next
      case None
      from assms vm ready None obtain res c2 where
        node: "getNodeReference env ?s2 = Some (res, c2)"
        by (auto simp: Exists_def Let_def split: option.splits)
      show ?thesis
      proof (cases res)
        case (Inl err)
        with assms vm ready None node have res: "r = Return (True, None)" "s' = ?s2"
          by (auto simp: Exists_def Let_def)
        from same s2 have "isVMExists env ?s2 = (r1, ?s2, c1)" by (intro again) simp_all
        with ready s2 None node Inl res show ?thesis
          by (auto simp: Exists_def Let_def backfill_ProviderID_again)
      next
        case (Inr nodeRef)
        let ?s3 = "?s2\<lparr>Machine := (Machine ?s2)\<lparr>Status_NodeRef := Some nodeRef\<rparr>\<rparr>"
        from Inr assms vm ready None node have res: "r = Return (True, None)" "s' = ?s3"
          by (auto simp: Exists_def Let_def)
        from same s2 have vm3: "isVMExists env ?s3 = (r1, ?s3, c1)" by (intro again) simp_all
        have "backfill_ProviderID ?s3 vmid = ?s3"
          by (simp add: backfill_ProviderID_def)
        with ready s2 vm3 res show ?thesis
          by (simp add: Exists_def Let_def)
      qed
    qed
  qed
qed

lemma Exists_keeps_NodeRef:
  assumes "Exists env s = Some (r, s', calls)" "Status_NodeRef (Machine s) \<noteq> None"
  shows "Status_NodeRef (Machine s') = Status_NodeRef (Machine s)"
proof -
  obtain r1 s1 c1 where vm: "isVMExists env s = (r1, s1, c1)"
    by (metis prod_cases3)
  note same = isVMExists_scope [OF vm]
  from assms vm same show ?thesis
    by (auto simp: Exists_def Let_def backfill_ProviderID_def
             split: result.splits option.splits if_splits prod.splits)
qed

lemma Exists_refreshes_status:
  assumes "Exists env s = Some (r, s', calls)"
    "virtualMachinesSvc_Get env (vmSpec_named (scope_Name s)) = (VirtualMachine vm, None)"
    "virtualMachinesExtSvc_Get env (startupScript_of (scope_Name s)) = (vmExt, None)"
    "ProvisioningState vm = Some vmState"
  shows "VMID (MachineStatus s') = ID vm \<and> VMState (MachineStatus s') = Some vmState"
proof -
  let ?s1 = "s\<lparr>MachineStatus := (MachineStatus s)\<lparr>VMID := ID vm, VMState := Some vmState\<rparr>\<rparr>"
  from assms(2-4) have "isVMExists env s =
      (Return (True, None), ?s1,
       [VMGet (vmSpec_named (scope_Name s)), ExtGet (startupScript_of (scope_Name s))])"
    by (simp add: isVMExists_def)
  with assms(1) show ?thesis
    by (auto simp: Exists_def Let_def backfill_ProviderID_def
             split: option.splits if_splits sum.splits)
qed

text \<open>
  C9, as stated, fails: \<open>VMID\<close> and \<open>VMState\<close> are written on every successful VM
  check, not once. A status in which an earlier pass recorded the state \<open>Creating\<close>
  is set again, to \<open>Succeeded\<close>, by the next Exists.
\<close>

theorem status_set_again_counterexample:
  "MachineStatus recorded_creating = \<lparr>VMID = Some ''vm-cp-1'', VMState = Some ''Creating''\<rparr> \<and>
   status_after demo recorded_creating
     = Some \<lparr>VMID = Some ''vm-cp-1'', VMState = Some ''Succeeded''\<rparr>"
  by (simp add: recorded_creating_def run_defs getNodeReference_loop.simps demo_defs)

text \<open>
  C9, amended. When Exists returns: a node reference that was already set is left as
  it was (it is written only while it is nil); \<open>VMID\<close> and \<open>VMState\<close> are, on every
  successful VM check, overwritten with the identifier and provisioning state the
  provider reports; and setting the fields again with the same values changes
  nothing: Exists on the resulting scope, with the same answers of the collaborators,
  returns the same result and leaves that scope as it is.
\<close>

theorem Exists_status:
  "Exists env s = Some (r, s', calls) \<longrightarrow>
     (Status_NodeRef (Machine s) \<noteq> None \<longrightarrow>
        Status_NodeRef (Machine s') = Status_NodeRef (Machine s)) \<and>
     (virtualMachinesSvc_Get env (vmSpec_named (scope_Name s)) = (VirtualMachine vm, None) \<and>
      virtualMachinesExtSvc_Get env (startupScript_of (scope_Name s)) = (vmExt, None) \<and>
      ProvisioningState vm = Some vmState \<longrightarrow>
        VMID (MachineStatus s') = ID vm \<and> VMState (MachineStatus s') = Some vmState) \<and>
     (\<exists>calls'. Exists env s' = Some (r, s', calls'))"
  using Exists_again [of env s r s' calls] Exists_keeps_NodeRef [of env s r s' calls]
    Exists_refreshes_status [of env s r s' calls vm vmExt vmState]
  by blast

theorem Exists_status_witness:
  "Exists demo (scope_of cp1) =
     Some (Return (True, None), cp1_resolved,
           [VMGet (vmSpec_named ''cp-1''), ExtGet (startupScript_of ''cp-1''),
            NodesList [], NodesList ''page-2'']) \<and>
   virtualMachinesSvc_Get demo (vmSpec_named (scope_Name (scope_of cp1)))
     = vm_in ''vm-cp-1'' ''Succeeded'' \<and>
   virtualMachinesExtSvc_Get demo (startupScript_of (scope_Name (scope_of cp1)))
     = (OtherValue, None) \<and>
   MachineStatus cp1_resolved = \<lparr>VMID = Some ''vm-cp-1'', VMState = Some ''Succeeded''\<rparr> \<and>
   Status_NodeRef (Machine cp1_resolved)
     = Some \<lparr>Kind = ''Node'', APIVersion = ''v1'', ref_Name = ''cp-1''\<rparr> \<and>
   Exists demo cp1_resolved =
     Some (Return (True, None), cp1_resolved,
           [VMGet (vmSpec_named ''cp-1''), ExtGet (startupScript_of ''cp-1'')])"
  using
    Exists_status [where env = demo and s = "scope_of cp1" and r = "Return (True, None)"
      and s' = cp1_resolved
      and calls = "[VMGet (vmSpec_named ''cp-1''), ExtGet (startupScript_of ''cp-1''),
                    NodesList [], NodesList ''page-2'']"
      and vm = "\<lparr>ID = Some ''vm-cp-1'', ProvisioningState = Some ''Succeeded'',
                 HardwareProfile_VMSize = ''Standard_B2ms''\<rparr>"
      and vmExt = OtherValue and vmState = "''Succeeded''"]
    Exists_status [where env = demo and s = cp1_resolved and r = "Return (True, None)"
      and s' = cp1_resolved
      and calls = "[VMGet (vmSpec_named ''cp-1''), ExtGet (startupScript_of ''cp-1'')]"
      and vm = "\<lparr>ID = Some ''vm-cp-1'', ProvisioningState = Some ''Succeeded'',
                 HardwareProfile_VMSize = ''Standard_B2ms''\<rparr>"
      and vmExt = OtherValue and vmState = "''Succeeded''"]
  by (simp add: cp1_resolved_def run_defs getNodeReference_loop.simps demo_defs)

end
